theory Spec2Isabelle
  imports Main "HOL-Library.Sublist"
begin

section \<open>Values of the untyped boundary\<close>

text \<open>
  The gateway receives a body of type \<open>any\<close>.  A value is one of the JSON forms, or
  \<open>undefined\<close>, which is what a missing property reads as and what a test may pass in.
  Numbers are kept as integers (ages, follower counts, metric values); floating point is
  outside the embedding.  An object is the list of its own properties in insertion order.
\<close>

datatype json =
    JUndef
  | JNull
  | JBool bool
  | JNum int
  | JStr string
  | JArr "json list"
  | JObj "(string \<times> json) list"

text \<open>\<open>obj[k]\<close> for an object's own properties: the first entry wins, a missing key reads
  as \<open>undefined\<close>.\<close>

definition lookup :: "(string \<times> json) list \<Rightarrow> string \<Rightarrow> json" where
  "lookup kvs k = (case map_of kvs k of Some v \<Rightarrow> v | None \<Rightarrow> JUndef)"

text \<open>\<open>v?.k\<close>: optional chaining gives \<open>undefined\<close> on \<open>null\<close> and \<open>undefined\<close>; a
  scalar or an array has none of the properties the program reads (\<open>source\<close>,
  \<open>eventType\<close>, \<open>eventId\<close>, \<open>correlationId\<close>, \<open>funnelStage\<close>).\<close>

fun getProp :: "json \<Rightarrow> string \<Rightarrow> json" where
  "getProp (JObj kvs) k = lookup kvs k"
| "getProp _ k = JUndef"

text \<open>JavaScript truthiness, as used by \<open>a || b\<close>.\<close>

fun truthy :: "json \<Rightarrow> bool" where
  "truthy JUndef = False"
| "truthy JNull = False"
| "truthy (JBool b) = b"
| "truthy (JNum n) = (n \<noteq> 0)"
| "truthy (JStr s) = (s \<noteq> [])"
| "truthy (JArr _) = True"
| "truthy (JObj _) = True"

definition or_else :: "json \<Rightarrow> json \<Rightarrow> json" where
  "or_else a b = (if truthy a then a else b)"

section \<open>The schema library\<close>

text \<open>
  The schemas of \<open>validation.service.ts\<close> are built from seven constructors of the schema
  library.  \<open>parse\<close> follows the library's documented behaviour: an object schema
  requires a plain object, parses every key of its shape, collects the issues of all keys,
  and returns a new object holding the keys of the shape only (unknown keys are stripped);
  a key whose parsed value is \<open>undefined\<close> is set in the output only when the input has
  the key; a union returns the output of the first option that accepts.
\<close>

datatype schema =
    ZString
  | ZNumber
  | ZLiteral string
  | ZEnum "string list"
  | ZAny
  | ZObject "(string \<times> schema) list"
  | ZUnion "schema list"

datatype issue =
    InvalidType string string "string list"
  | InvalidLiteral string "string list"
  | InvalidEnumValue "string list" string "string list"
  | InvalidUnion "issue list list" "string list"

fun parsedType :: "json \<Rightarrow> string" where
  "parsedType JUndef = ''undefined''"
| "parsedType JNull = ''null''"
| "parsedType (JBool _) = ''boolean''"
| "parsedType (JNum _) = ''number''"
| "parsedType (JStr _) = ''string''"
| "parsedType (JArr _) = ''array''"
| "parsedType (JObj _) = ''object''"

fun joinWith :: "string \<Rightarrow> string list \<Rightarrow> string" where
  "joinWith sep [] = []"
| "joinWith sep [x] = x"
| "joinWith sep (x # y # ys) = x @ sep @ joinWith sep (y # ys)"

definition quoted :: "string \<Rightarrow> string" where
  "quoted s = [CHR 0x27] @ s @ [CHR 0x27]"

definition joinValues :: "string list \<Rightarrow> string" where
  "joinValues opts = joinWith '' | '' (map quoted opts)"

fun parse :: "schema \<Rightarrow> string list \<Rightarrow> json \<Rightarrow> issue list + json"
  and parse_shape :: "(string \<times> schema) list \<Rightarrow> string list \<Rightarrow> (string \<times> json) list
        \<Rightarrow> issue list \<times> (string \<times> json) list"
  and parse_union :: "schema list \<Rightarrow> string list \<Rightarrow> json \<Rightarrow> issue list list + json"
where
  "parse ZString p v =
     (case v of JStr s \<Rightarrow> Inr v | _ \<Rightarrow> Inl [InvalidType ''string'' (parsedType v) p])"
| "parse ZNumber p v =
     (case v of JNum n \<Rightarrow> Inr v | _ \<Rightarrow> Inl [InvalidType ''number'' (parsedType v) p])"
| "parse (ZLiteral l) p v =
     (if v = JStr l then Inr v else Inl [InvalidLiteral l p])"
| "parse (ZEnum opts) p v =
     (case v of
        JStr s \<Rightarrow> if s \<in> set opts then Inr v else Inl [InvalidEnumValue opts s p]
      | _ \<Rightarrow> Inl [InvalidType (joinValues opts) (parsedType v) p])"
| "parse ZAny p v = Inr v"
| "parse (ZObject shape) p v =
     (case v of
        JObj kvs \<Rightarrow>
          (case parse_shape shape p kvs of
             ([], out) \<Rightarrow> Inr (JObj out)
           | (i # is, out) \<Rightarrow> Inl (i # is))
      | _ \<Rightarrow> Inl [InvalidType ''object'' (parsedType v) p])"
| "parse (ZUnion opts) p v =
     (case parse_union opts p v of
        Inr out \<Rightarrow> Inr out
      | Inl errs \<Rightarrow> Inl [InvalidUnion errs p])"
| "parse_shape [] p kvs = ([], [])"
| "parse_shape ((k, s) # shape) p kvs =
     (case parse_shape shape p kvs of
        (is, out) \<Rightarrow>
          (case parse s (p @ [k]) (lookup kvs k) of
             Inl js \<Rightarrow> (js @ is, out)
           | Inr v \<Rightarrow>
               (is, if v = JUndef \<and> k \<notin> fst ` set kvs then out else (k, v) # out)))"
| "parse_union [] p v = Inl []"
| "parse_union (s # opts) p v =
     (case parse s p v of
        Inr out \<Rightarrow> Inr out
      | Inl is \<Rightarrow>
          (case parse_union opts p v of
             Inr out \<Rightarrow> Inr out
           | Inl errs \<Rightarrow> Inl (is # errs)))"

text \<open>
  The library's error carries the list of issues; its \<open>message\<close> is a rendering of that
  list.  The library prints the issues as indented JSON; the model prints the same data
  (code, path, default message, nested union errors), one issue after the other.
\<close>

fun issue_text :: "issue \<Rightarrow> string"
  and issues_text :: "issue list \<Rightarrow> string"
  and errors_text :: "issue list list \<Rightarrow> string"
where
  "issue_text (InvalidType e r p) =
     ''invalid_type at ['' @ joinWith '','' p @ '']: '' @
     (if r = ''undefined'' then ''Required'' else ''Expected '' @ e @ '', received '' @ r)"
| "issue_text (InvalidLiteral l p) =
     ''invalid_literal at ['' @ joinWith '','' p @ '']: Invalid literal value, expected '' @
     [CHR 0x22] @ l @ [CHR 0x22]"
| "issue_text (InvalidEnumValue opts r p) =
     ''invalid_enum_value at ['' @ joinWith '','' p @ '']: Invalid enum value. Expected '' @
     joinValues opts @ '', received '' @ quoted r"
| "issue_text (InvalidUnion errs p) =
     ''invalid_union at ['' @ joinWith '','' p @ '']: Invalid input {'' @ errors_text errs @ ''}''"
| "issues_text [] = []"
| "issues_text [i] = issue_text i"
| "issues_text (i # j # is) = issue_text i @ ''; '' @ issues_text (j # is)"
| "errors_text [] = []"
| "errors_text (e # es) = ''ZodError('' @ issues_text e @ '') '' @ errors_text es"

definition zod_message :: "issue list \<Rightarrow> string" where
  "zod_message is = issues_text is"

section \<open>Exceptions\<close>

text \<open>A thrown value is an error object; what the program reads of it is its message.\<close>

datatype exn =
    BadRequestException string
  | TypeError string
  | Error string

fun message :: "exn \<Rightarrow> string" where
  "message (BadRequestException m) = m"
| "message (TypeError m) = m"
| "message (Error m) = m"

section \<open>Event schemas and the validation service\<close>

definition FacebookEventSchema :: schema where
  "FacebookEventSchema = ZObject
     [(''eventId'', ZString),
      (''timestamp'', ZString),
      (''source'', ZLiteral ''facebook''),
      (''funnelStage'', ZEnum [''top'', ''bottom'']),
      (''eventType'', ZString),
      (''data'', ZObject
         [(''user'', ZObject
            [(''userId'', ZString),
             (''name'', ZString),
             (''age'', ZNumber),
             (''gender'', ZEnum [''male'', ''female'', ''non-binary'']),
             (''location'', ZObject
                [(''country'', ZString),
                 (''city'', ZString)])]),
          (''engagement'', ZAny)])]"

definition TiktokEventSchema :: schema where
  "TiktokEventSchema = ZObject
     [(''eventId'', ZString),
      (''timestamp'', ZString),
      (''source'', ZLiteral ''tiktok''),
      (''funnelStage'', ZEnum [''top'', ''bottom'']),
      (''eventType'', ZString),
      (''data'', ZObject
         [(''user'', ZObject
            [(''userId'', ZString),
             (''username'', ZString),
             (''followers'', ZNumber)]),
          (''engagement'', ZAny)])]"

definition EventSchema :: schema where
  "EventSchema = ZUnion [FacebookEventSchema, TiktokEventSchema]"

text \<open>
  \<open>ValidationService\<close>: each validator parses and, on failure, throws a
  \<open>BadRequestException\<close> whose message is its own prefix followed by the library's
  message.  The console logging of \<open>validateEvent\<close> has no effect on the result.
\<close>

definition validateEvent :: "json \<Rightarrow> exn + json" where
  "validateEvent eventData =
     (case parse EventSchema [] eventData of
        Inr validatedEvent \<Rightarrow> Inr validatedEvent
      | Inl error \<Rightarrow>
          Inl (BadRequestException (''Invalid event format: '' @ zod_message error)))"

definition validateFacebookEvent :: "json \<Rightarrow> exn + json" where
  "validateFacebookEvent eventData =
     (case parse FacebookEventSchema [] eventData of
        Inr ev \<Rightarrow> Inr ev
      | Inl error \<Rightarrow>
          Inl (BadRequestException (''Invalid Facebook event format: '' @ zod_message error)))"

definition validateTiktokEvent :: "json \<Rightarrow> exn + json" where
  "validateTiktokEvent eventData =
     (case parse TiktokEventSchema [] eventData of
        Inr ev \<Rightarrow> Inr ev
      | Inl error \<Rightarrow>
          Inl (BadRequestException (''Invalid TikTok event format: '' @ zod_message error)))"

section \<open>What every process holds\<close>

text \<open>
  What a process reads from its surroundings and what it writes to them is held in one
  record, passed through every operation:
  \<^item> \<open>clock\<close> and \<open>random\<close> are the answers of the runtime to successive readings of
    \<open>Date.now()\<close> / \<open>new Date()\<close> and of \<open>Math.random()\<close>; \<open>clock_reads\<close> and
    \<open>random_reads\<close> count the readings made so far.  A random number in \<open>[0, 1)\<close> is
    given by the digits of its base-36 expansion, which is all \<open>toString(36)\<close> shows of it;
  \<^item> \<open>toISOString\<close> is the runtime's rendering of a time stamp;
  \<^item> \<open>connection\<close> is the state of the broker client held by \<open>NatsService\<close>: none,
    one on which the client library throws the given error, or one that works;
  \<^item> the three counters and the histogram of \<open>MetricsService\<close> list the increments and
    observations applied to them, with their labels; an observation is kept as the
    duration in milliseconds that \<open>recordProcessingDuration\<close> is called with.
\<close>

datatype nats_connection =
    NoConnection
  | Refusing string
  | Established

type_synonym labels = "(string \<times> json) list"

record service =
  clock :: "nat \<Rightarrow> nat"
  clock_reads :: nat
  random :: "nat \<Rightarrow> nat list"
  random_reads :: nat
  toISOString :: "nat \<Rightarrow> string"
  connection :: nats_connection
  eventsAccepted :: "(labels \<times> int) list"
  eventsProcessed :: "(labels \<times> int) list"
  eventsFailed :: "(labels \<times> int) list"
  eventProcessingDuration :: "(labels \<times> int) list"

subsection \<open>Runtime helpers\<close>

definition Date_now :: "'a service_scheme \<Rightarrow> nat \<times> 'a service_scheme" where
  "Date_now st = (clock st (clock_reads st), st\<lparr>clock_reads := Suc (clock_reads st)\<rparr>)"

definition Math_random :: "'a service_scheme \<Rightarrow> nat list \<times> 'a service_scheme" where
  "Math_random st = (random st (random_reads st), st\<lparr>random_reads := Suc (random_reads st)\<rparr>)"

definition digit36 :: "nat \<Rightarrow> char" where
  "digit36 d = ''0123456789abcdefghijklmnopqrstuvwxyz'' ! (d mod 36)"

text \<open>\<open>x.toString(36)\<close> for \<open>0 \<le> x < 1\<close>: \<open>"0"\<close> for zero, else \<open>"0."\<close> and the digits.\<close>

definition toString36 :: "nat list \<Rightarrow> string" where
  "toString36 ds = (if ds = [] then ''0'' else ''0.'' @ map digit36 ds)"

definition substr :: "nat \<Rightarrow> nat \<Rightarrow> string \<Rightarrow> string" where
  "substr start len s = take len (drop start s)"

fun decimal :: "nat \<Rightarrow> string" where
  "decimal n =
     (if n < 10 then [''0123456789'' ! n]
      else decimal (n div 10) @ [''0123456789'' ! (n mod 10)])"

declare decimal.simps [simp del]

text \<open>String conversion inside a template literal.\<close>

fun toStr :: "json \<Rightarrow> string"
  and toStrs :: "json list \<Rightarrow> string list"
where
  "toStr JUndef = ''undefined''"
| "toStr JNull = ''null''"
| "toStr (JBool b) = (if b then ''true'' else ''false'')"
| "toStr (JNum n) = (if n < 0 then ''-'' @ decimal (nat (- n)) else decimal (nat n))"
| "toStr (JStr s) = s"
| "toStr (JArr xs) = joinWith '','' (toStrs xs)"
| "toStr (JObj kvs) = ''[object Object]''"
| "toStrs [] = []"
| "toStrs (x # xs) =
     (if x = JUndef \<or> x = JNull then [] else toStr x) # toStrs xs"

text \<open>Own properties copied by an object spread, and a property set on an object literal.\<close>

fun ownProps :: "json \<Rightarrow> (string \<times> json) list" where
  "ownProps (JObj kvs) = kvs"
| "ownProps _ = []"

definition setProp :: "(string \<times> json) list \<Rightarrow> string \<Rightarrow> json \<Rightarrow> (string \<times> json) list" where
  "setProp kvs k v =
     (if k \<in> fst ` set kvs then map (\<lambda>(k', v'). (k', if k' = k then v else v')) kvs
      else kvs @ [(k, v)])"

subsection \<open>MetricsService\<close>

definition recordMetric :: "string \<Rightarrow> int \<Rightarrow> labels \<Rightarrow> 'a service_scheme \<Rightarrow> 'a service_scheme" where
  "recordMetric type v ls st =
     (if type = ''accepted'' then st\<lparr>eventsAccepted := eventsAccepted st @ [(ls, v)]\<rparr>
      else if type = ''processed'' then st\<lparr>eventsProcessed := eventsProcessed st @ [(ls, v)]\<rparr>
      else if type = ''failed'' then st\<lparr>eventsFailed := eventsFailed st @ [(ls, v)]\<rparr>
      else st)"

definition recordProcessingDuration :: "int \<Rightarrow> labels \<Rightarrow> 'a service_scheme \<Rightarrow> 'a service_scheme" where
  "recordProcessingDuration duration ls st =
     st\<lparr>eventProcessingDuration := eventProcessingDuration st @ [(ls, duration)]\<rparr>"

subsection \<open>NatsService: the connection guard\<close>

definition getConnection :: "'a service_scheme \<Rightarrow> exn + unit" where
  "getConnection st =
     (if connection st = NoConnection then Inl (Error ''NATS connection not established'')
      else Inr ())"

section \<open>The gateway process\<close>

text \<open>
  The gateway adds \<open>published\<close>: the messages handed to the broker, subject and payload,
  the payload being the value that is serialized onto the wire.  Console logging is left
  out of the gateway model: no operation reads it back.
\<close>

record gateway = service +
  published :: "(string \<times> json) list"

subsection \<open>NatsService and MessagingRepository (gateway side)\<close>

definition publishToStream :: "string \<Rightarrow> string \<Rightarrow> json \<Rightarrow> gateway \<Rightarrow> (exn + unit) \<times> gateway" where
  "publishToStream streamName subject data st =
     (case getConnection st of
        Inl e \<Rightarrow> (Inl e, st)
      | Inr _ \<Rightarrow>
          (case connection st of
             Refusing m \<Rightarrow> (Inl (Error m), st)
           | _ \<Rightarrow> (Inr (), st\<lparr>published := published st @ [(subject, data)]\<rparr>)))"

definition buildSubject :: "json \<Rightarrow> string" where
  "buildSubject event =
     ''events.'' @ toStr (getProp event ''source'') @ ''.'' @ toStr (getProp event ''funnelStage'')"

definition generateCorrelationId :: "gateway \<Rightarrow> string \<times> gateway" where
  "generateCorrelationId st =
     (case Date_now st of
        (now, st1) \<Rightarrow>
          (case Math_random st1 of
             (r, st2) \<Rightarrow>
               (''gateway-'' @ decimal now @ ''-'' @ substr 2 9 (toString36 r), st2)))"

text \<open>\<open>correlationId || this.generateCorrelationId()\<close>: the header value when it is a
  non-empty string, else a fresh identifier.  The controller and the repository each have
  their own copy of \<open>generateCorrelationId\<close>, with the same body.\<close>

definition orGenerate :: "string option \<Rightarrow> gateway \<Rightarrow> string \<times> gateway" where
  "orGenerate correlationId st =
     (case correlationId of
        Some c \<Rightarrow> if c \<noteq> [] then (c, st) else generateCorrelationId st
      | None \<Rightarrow> generateCorrelationId st)"

definition publishEvent :: "json \<Rightarrow> string option \<Rightarrow> gateway \<Rightarrow> (exn + unit) \<times> gateway" where
  "publishEvent event correlationId st =
     (let subject = buildSubject event in
      case orGenerate correlationId st of
        (cid, st1) \<Rightarrow>
          (case Date_now st1 of
             (t, st2) \<Rightarrow>
               publishToStream ''marketing-events'' subject
                 (JObj (setProp (setProp (ownProps event) ''correlationId'' (JStr cid))
                          ''receivedAt'' (JStr (toISOString st2 t))))
                 st2))"

subsection \<open>WebhookService and WebhookController\<close>

record processed =
  success :: bool
  eventId :: json

record response =
  r_success :: bool
  r_eventId :: json
  r_correlationId :: string

definition failedLabels :: "json \<Rightarrow> exn \<Rightarrow> labels" where
  "failedLabels eventData error =
     [(''source'', or_else (getProp eventData ''source'') (JStr ''unknown'')),
      (''event_type'', or_else (getProp eventData ''eventType'') (JStr ''unknown'')),
      (''error'', JStr (message error))]"

definition stageLabels :: "json \<Rightarrow> labels" where
  "stageLabels event =
     [(''source'', getProp event ''source''),
      (''event_type'', getProp event ''eventType''),
      (''funnel_stage'', getProp event ''funnelStage'')]"

definition processEvent :: "json \<Rightarrow> string option \<Rightarrow> gateway \<Rightarrow> (exn + processed) \<times> gateway" where
  "processEvent eventData correlationId st =
     (case Date_now st of
        (startTime, st1) \<Rightarrow>
          (case validateEvent eventData of
             Inl error \<Rightarrow>
               (Inl error, recordMetric ''failed'' 1 (failedLabels eventData error) st1)
           | Inr event \<Rightarrow>
               (let st2 = recordMetric ''accepted'' 1 (stageLabels event) st1
                in case publishEvent event correlationId st2 of
                     (Inl error, st3) \<Rightarrow>
                       (Inl error, recordMetric ''failed'' 1 (failedLabels eventData error) st3)
                   | (Inr _, st3) \<Rightarrow>
                       (let st4 = recordMetric ''processed'' 1 (stageLabels event) st3
                        in case Date_now st4 of
                             (t, st5) \<Rightarrow>
                               (Inr \<lparr>success = True, eventId = getProp event ''eventId''\<rparr>,
                                recordProcessingDuration (int t - int startTime)
                                  [(''source'', getProp event ''source''),
                                   (''event_type'', getProp event ''eventType'')] st5)))))"

definition receiveWebhook :: "json \<Rightarrow> string option \<Rightarrow> gateway \<Rightarrow> (exn + response) \<times> gateway" where
  "receiveWebhook body correlationId st =
     (case processEvent body correlationId st of
        (Inl error, st1) \<Rightarrow> (Inl error, st1)
      | (Inr result, st1) \<Rightarrow>
          (case orGenerate correlationId st1 of
             (cid, st2) \<Rightarrow>
               (Inr \<lparr>r_success = success result, r_eventId = eventId result,
                     r_correlationId = cid\<rparr>, st2)))"

section \<open>The collector process\<close>

text \<open>
  The collector adds the JetStream manager of \<open>NatsService\<close> (absent, or the outcome of
  declaring the stream), the subscriptions registered so far (subject, queue group and
  the handler bound to them), the lines written to the log, and the persistence sink.
  A log line keeps its level, its message and its context; \<open>LSerialized v\<close> stands for
  the text \<open>JSON.stringify(v)\<close> and \<open>LTrace e\<close> for the stack of the error \<open>e\<close>.  The
  time stamp of a line and the lines of the method-tracing decorator are not kept.
\<close>

datatype logval =
    LJson json
  | LSerialized json
  | LTrace exn

datatype log_entry = Log string string "(string \<times> logval) list"

datatype jet_stream =
    NoJetStream
  | AddsStream
  | StreamExists
  | AddFails string

datatype handler_name =
    HandleFacebookEvent
  | HandleTiktokEvent

record 'db collector = service +
  jetStream :: jet_stream
  subscriptions :: "(string \<times> string \<times> handler_name) list"
  logs :: "log_entry list"
  db :: 'db

type_synonym 'db handler = "json \<Rightarrow> json \<Rightarrow> 'db collector \<Rightarrow> (exn + unit) \<times> 'db collector"

type_synonym 'db sink = "json \<Rightarrow> json \<Rightarrow> 'db \<Rightarrow> (exn + unit) \<times> 'db"

subsection \<open>Logging\<close>

definition writeLog :: "string \<Rightarrow> string \<Rightarrow> (string \<times> logval) list \<Rightarrow> 'db collector \<Rightarrow> 'db collector" where
  "writeLog lvl msg ctx st = st\<lparr>logs := logs st @ [Log lvl msg ctx]\<rparr>"

text \<open>\<open>logger.error(message, trace, context)\<close> adds the trace and \<open>error: true\<close> to the
  context.\<close>

definition logError :: "string \<Rightarrow> exn \<Rightarrow> (string \<times> logval) list \<Rightarrow> 'db collector \<Rightarrow> 'db collector" where
  "logError msg error ctx st =
     writeLog ''error'' msg (ctx @ [(''trace'', LTrace error), (''error'', LJson (JBool True))]) st"

subsection \<open>NatsService (collector side)\<close>

definition getJetStream :: "'db collector \<Rightarrow> exn + unit" where
  "getJetStream st =
     (if jetStream st = NoJetStream then Inl (Error ''JetStream not available'') else Inr ())"

definition createStream :: "string \<Rightarrow> string list \<Rightarrow> 'db collector \<Rightarrow> (exn + unit) \<times> 'db collector" where
  "createStream streamName subjects st =
     (case getJetStream st of
        Inl e \<Rightarrow> (Inl e, st)
      | Inr _ \<Rightarrow>
          (case jetStream st of
             AddFails m \<Rightarrow>
               (Inl (Error m),
                logError (''Failed to create stream '' @ streamName) (Error m) [] st)
           | StreamExists \<Rightarrow>
               (Inr (), writeLog ''debug'' (''Stream '' @ streamName @ '' already exists'') [] st)
           | _ \<Rightarrow> (Inr (), writeLog ''log'' (''Created stream: '' @ streamName) [] st)))"

definition ensureStream :: "string \<Rightarrow> string list \<Rightarrow> 'db collector \<Rightarrow> 'db collector" where
  "ensureStream streamName subjects st =
     (case createStream streamName subjects st of
        (Inl error, st1) \<Rightarrow>
          writeLog ''debug'' (''Stream '' @ streamName @ '' might already exist'')
            [(''message'', LJson (JStr (message error)))] st1
      | (Inr _, st1) \<Rightarrow> st1)"

text \<open>\<open>NatsService.subscribe\<close>: the connection guard, then the client library's
  \<open>subscribe\<close> with the queue group; the subscription is kept.  The consumption loop it
  starts is \<open>consume\<close> below.\<close>

definition natsSubscribe :: "string \<Rightarrow> handler_name \<Rightarrow> string \<Rightarrow> 'db collector \<Rightarrow> (exn + unit) \<times> 'db collector" where
  "natsSubscribe subject callback queue st =
     (case getConnection st of
        Inl e \<Rightarrow> (Inl e, st)
      | Inr _ \<Rightarrow>
          (case connection st of
             Refusing m \<Rightarrow>
               (Inl (Error m), logError (''Failed to subscribe to '' @ subject) (Error m) [] st)
           | _ \<Rightarrow>
               (Inr (),
                writeLog ''log'' (''Subscribed to '' @ subject) []
                  (st\<lparr>subscriptions := subscriptions st @ [(subject, queue, callback)]\<rparr>))))"

subsection \<open>MessagingRepository (collector side)\<close>

definition initializeStreams :: "string list \<Rightarrow> 'db collector \<Rightarrow> (exn + unit) \<times> 'db collector" where
  "initializeStreams subjects st =
     (let st1 = writeLog ''info'' ''Initializing NATS streams''
                  [(''subjects'', LJson (JArr (map JStr subjects)))] st;
          st2 = ensureStream ''marketing-events'' subjects st1
      in (Inr (), writeLog ''info'' ''NATS streams initialized successfully'' [] st2))"

definition subscribe :: "string \<Rightarrow> string \<Rightarrow> handler_name \<Rightarrow> 'db collector \<Rightarrow> (exn + unit) \<times> 'db collector" where
  "subscribe subject durableName handler st =
     (let ctx = [(''subject'', LJson (JStr subject)), (''durableName'', LJson (JStr durableName))];
          st1 = writeLog ''info'' ''Setting up subscription'' ctx st
      in case natsSubscribe subject handler durableName st1 of
           (Inl error, st2) \<Rightarrow> (Inl error, logError ''Failed to set up subscription'' error ctx st2)
         | (Inr _, st2) \<Rightarrow> (Inr (), writeLog ''info'' ''Subscription established'' ctx st2))"

text \<open>The callback that \<open>subscribe\<close> hands to \<open>NatsService\<close>.  Reading
  \<open>data.correlationId\<close> of \<open>null\<close> throws inside the \<open>try\<close>, so the handler is not
  called; whatever is thrown inside the \<open>try\<close> is logged with the subject and the
  serialized payload, and the callback returns normally.\<close>

definition messageCallback :: "string \<Rightarrow> 'db handler \<Rightarrow> json \<Rightarrow> 'db collector \<Rightarrow> (exn + unit) \<times> 'db collector" where
  "messageCallback subject handler data st =
     (if data = JNull \<or> data = JUndef then
        (Inr (),
         logError ''Failed to process received event''
           (TypeError ''Cannot read properties of null (reading correlationId)'')
           [(''subject'', LJson (JStr subject)), (''data'', LSerialized data)] st)
      else
        (let correlationId = getProp data ''correlationId'';
             st1 = writeLog ''info'' ''Received event from stream''
                     [(''subject'', LJson (JStr subject)),
                      (''correlationId'', LJson correlationId),
                      (''eventId'', LJson (getProp data ''eventId''))] st
         in case handler data correlationId st1 of
              (Inl error, st2) \<Rightarrow>
                (Inr (),
                 logError ''Failed to process received event'' error
                   [(''subject'', LJson (JStr subject)), (''data'', LSerialized data)] st2)
            | (Inr _, st2) \<Rightarrow> (Inr (), st2)))"

subsection \<open>The consumption loop of a subscription\<close>

text \<open>A delivered message either fails \<open>JSON.parse\<close> or carries a value.  The loop takes
  the messages one after the other; an error of the parse or of the callback is logged
  and the loop goes on to the next message.\<close>

datatype delivery =
    Malformed
  | Payload json

definition onMessage :: "string \<Rightarrow> (json \<Rightarrow> 'db collector \<Rightarrow> (exn + unit) \<times> 'db collector)
    \<Rightarrow> delivery \<Rightarrow> 'db collector \<Rightarrow> 'db collector" where
  "onMessage subject callback msg st =
     (case msg of
        Malformed \<Rightarrow>
          logError (''Error processing message from '' @ subject)
            (Error ''Unexpected token in JSON'') [] st
      | Payload data \<Rightarrow>
          (case callback data st of
             (Inl error, st1) \<Rightarrow>
               logError (''Error processing message from '' @ subject) error [] st1
           | (Inr _, st1) \<Rightarrow> st1))"

fun consume :: "string \<Rightarrow> (json \<Rightarrow> 'db collector \<Rightarrow> (exn + unit) \<times> 'db collector)
    \<Rightarrow> delivery list \<Rightarrow> 'db collector \<Rightarrow> 'db collector" where
  "consume subject callback [] st = st"
| "consume subject callback (msg # msgs) st =
     consume subject callback msgs (onMessage subject callback msg st)"

subsection \<open>EventProcessingService and CollectorService\<close>

text \<open>\<open>process.env.COLLECTOR_TYPE || 'unknown'\<close>.\<close>

definition collectorTypeOf :: "string option \<Rightarrow> string" where
  "collectorTypeOf env = (case env of Some t \<Rightarrow> if t \<noteq> [] then t else ''unknown'' | None \<Rightarrow> ''unknown'')"

text \<open>\<open>EventProcessingService.processEvent\<close>, called \<open>collectEvent\<close> here to keep it
  apart from the gateway's \<open>processEvent\<close>; \<open>saveEvent\<close> is the persistence sink
  (\<open>EventRepository.saveEvent\<close>), taken as a parameter acting on \<open>db\<close>.  On \<open>null\<close> the
  read of \<open>event.eventId\<close> throws in the \<open>try\<close>, and the read of \<open>event.source\<close> throws
  again in the \<open>catch\<close>.\<close>

definition collectEvent :: "'db sink \<Rightarrow> string \<Rightarrow> 'db handler" where
  "collectEvent saveEvent ctype event correlationId st =
     (case Date_now st of
        (startTime, st1) \<Rightarrow>
          if event = JNull \<or> event = JUndef then
            (Inl (TypeError ''Cannot read properties of null (reading source)''), st1)
          else
          (let st2 = writeLog ''info'' ''Processing event''
                       [(''correlationId'', LJson correlationId),
                        (''eventId'', LJson (getProp event ''eventId'')),
                        (''source'', LJson (getProp event ''source'')),
                        (''eventType'', LJson (getProp event ''eventType'')),
                        (''funnelStage'', LJson (getProp event ''funnelStage''))] st1;
               st3 = recordMetric ''accepted'' 1
                       ((''collector_type'', JStr ctype) # stageLabels event) st2
           in case saveEvent event correlationId (db st3) of
                (Inl error, d) \<Rightarrow>
                  (Inl error,
                   logError ''Failed to process event'' error
                     [(''correlationId'', LJson correlationId),
                      (''eventId'', LJson (getProp event ''eventId'')),
                      (''source'', LJson (getProp event ''source'')),
                      (''error'', LJson (JStr (message error)))]
                     (recordMetric ''failed'' 1
                        [(''collector_type'', JStr ctype),
                         (''source'', getProp event ''source''),
                         (''event_type'', getProp event ''eventType''),
                         (''error'', JStr (message error))]
                        (st3\<lparr>db := d\<rparr>)))
              | (Inr _, d) \<Rightarrow>
                  (let st4 = recordMetric ''processed'' 1
                               ((''collector_type'', JStr ctype) # stageLabels event)
                               (st3\<lparr>db := d\<rparr>)
                   in case Date_now st4 of
                        (t, st5) \<Rightarrow>
                          (Inr (),
                           writeLog ''info'' ''Event processed successfully''
                             [(''correlationId'', LJson correlationId),
                              (''eventId'', LJson (getProp event ''eventId'')),
                              (''source'', LJson (getProp event ''source'')),
                              (''duration'',
                               LJson (JStr (toStr (JNum (int t - int startTime)) @ ''ms'')))]
                             (recordProcessingDuration (int t - int startTime)
                                [(''collector_type'', JStr ctype),
                                 (''source'', getProp event ''source''),
                                 (''event_type'', getProp event ''eventType'')] st5)))))"

text \<open>\<open>CollectorService.handleFacebookEvent\<close> and \<open>handleTiktokEvent\<close>: the failure of
  the processing is logged with the correlation id and the event id, and not thrown
  again.  On \<open>null\<close> the read of \<open>event.eventId\<close> throws, in the \<open>try\<close> and again in the
  \<open>catch\<close>.\<close>

definition handleEvent :: "string \<Rightarrow> 'db sink \<Rightarrow> string \<Rightarrow> 'db handler" where
  "handleEvent platform saveEvent ctype event correlationId st =
     (if event = JNull \<or> event = JUndef then
        (Inl (TypeError ''Cannot read properties of null (reading eventId)''), st)
      else
        (let st1 = writeLog ''info'' (''Received '' @ platform @ '' event'')
                     [(''correlationId'', LJson correlationId),
                      (''eventId'', LJson (getProp event ''eventId'')),
                      (''eventType'', LJson (getProp event ''eventType'')),
                      (''funnelStage'', LJson (getProp event ''funnelStage''))] st
         in case collectEvent saveEvent ctype event correlationId st1 of
              (Inl error, st2) \<Rightarrow>
                (Inr (),
                 logError (''Failed to handle '' @ platform @ '' event'') error
                   [(''correlationId'', LJson correlationId),
                    (''eventId'', LJson (getProp event ''eventId''))] st2)
            | (Inr _, st2) \<Rightarrow> (Inr (), st2)))"

definition handleFacebookEvent :: "'db sink \<Rightarrow> string \<Rightarrow> 'db handler" where
  "handleFacebookEvent = handleEvent ''Facebook''"

definition handleTiktokEvent :: "'db sink \<Rightarrow> string \<Rightarrow> 'db handler" where
  "handleTiktokEvent = handleEvent ''TikTok''"

fun handlerOf :: "'db sink \<Rightarrow> string \<Rightarrow> handler_name \<Rightarrow> 'db handler" where
  "handlerOf saveEvent ctype HandleFacebookEvent = handleFacebookEvent saveEvent ctype"
| "handlerOf saveEvent ctype HandleTiktokEvent = handleTiktokEvent saveEvent ctype"

definition subscribeToFacebookEvents :: "'db collector \<Rightarrow> (exn + unit) \<times> 'db collector" where
  "subscribeToFacebookEvents st =
     (case subscribe ''events.facebook.top'' ''facebook-collector-top'' HandleFacebookEvent st of
        (Inl error, st1) \<Rightarrow>
          (Inl error, logError ''Failed to subscribe to Facebook events'' error [] st1)
      | (Inr _, st1) \<Rightarrow>
          (case subscribe ''events.facebook.bottom'' ''facebook-collector-bottom''
                  HandleFacebookEvent st1 of
             (Inl error, st2) \<Rightarrow>
               (Inl error, logError ''Failed to subscribe to Facebook events'' error [] st2)
           | (Inr _, st2) \<Rightarrow> (Inr (), writeLog ''info'' ''Subscribed to Facebook events'' [] st2)))"

definition subscribeToTiktokEvents :: "'db collector \<Rightarrow> (exn + unit) \<times> 'db collector" where
  "subscribeToTiktokEvents st =
     (case subscribe ''events.tiktok.top'' ''tiktok-collector-top'' HandleTiktokEvent st of
        (Inl error, st1) \<Rightarrow>
          (Inl error, logError ''Failed to subscribe to TikTok events'' error [] st1)
      | (Inr _, st1) \<Rightarrow>
          (case subscribe ''events.tiktok.bottom'' ''tiktok-collector-bottom''
                  HandleTiktokEvent st1 of
             (Inl error, st2) \<Rightarrow>
               (Inl error, logError ''Failed to subscribe to TikTok events'' error [] st2)
           | (Inr _, st2) \<Rightarrow> (Inr (), writeLog ''info'' ''Subscribed to TikTok events'' [] st2)))"

definition onModuleInit :: "string option \<Rightarrow> 'db collector \<Rightarrow> (exn + unit) \<times> 'db collector" where
  "onModuleInit env st =
     (let collectorType = collectorTypeOf env in
      case initializeStreams
             [''events.facebook.top'', ''events.facebook.bottom'',
              ''events.tiktok.top'', ''events.tiktok.bottom''] st of
        (Inl error, st1) \<Rightarrow>
          (Inl error, logError ''Failed to initialize collector service'' error [] st1)
      | (Inr _, st1) \<Rightarrow>
          (case (if collectorType = ''facebook'' then subscribeToFacebookEvents st1
                 else if collectorType = ''tiktok'' then subscribeToTiktokEvents st1
                 else (Inr (), writeLog ''warn'' (''Unknown collector type: '' @ collectorType) [] st1)) of
             (Inl error, st2) \<Rightarrow>
               (Inl error, logError ''Failed to initialize collector service'' error [] st2)
           | (Inr _, st2) \<Rightarrow>
               (Inr (),
                writeLog ''info'' (''Collector service initialized for '' @ collectorType) [] st2)))"

section \<open>Sample inputs and the predicates of the properties\<close>

text \<open>The two events of the test utilities.\<close>

definition mockFacebookEvent :: json where
  "mockFacebookEvent = JObj
     [(''eventId'', JStr ''fb-event-123''),
      (''timestamp'', JStr ''2024-01-15T10:00:00Z''),
      (''source'', JStr ''facebook''),
      (''funnelStage'', JStr ''top''),
      (''eventType'', JStr ''ad.view''),
      (''data'', JObj
         [(''user'', JObj
            [(''userId'', JStr ''user-123''),
             (''name'', JStr ''John Doe''),
             (''age'', JNum 28),
             (''gender'', JStr ''male''),
             (''location'', JObj [(''country'', JStr ''US''), (''city'', JStr ''New York'')])]),
          (''engagement'', JObj
            [(''actionTime'', JStr ''2024-01-15T10:00:00Z''),
             (''referrer'', JStr ''newsfeed''),
             (''videoId'', JStr ''video-123'')])])]"

definition mockTiktokEvent :: json where
  "mockTiktokEvent = JObj
     [(''eventId'', JStr ''ttk-event-123''),
      (''timestamp'', JStr ''2024-01-15T10:00:00Z''),
      (''source'', JStr ''tiktok''),
      (''funnelStage'', JStr ''bottom''),
      (''eventType'', JStr ''purchase''),
      (''data'', JObj
         [(''user'', JObj
            [(''userId'', JStr ''user-456''),
             (''username'', JStr ''johndoe_ttk''),
             (''followers'', JNum 1500)]),
          (''engagement'', JObj
            [(''actionTime'', JStr ''2024-01-15T10:00:00Z''),
             (''profileId'', JStr ''profile-456''),
             (''purchasedItem'', JStr ''Product A''),
             (''purchaseAmount'', JStr ''29.99'')])])]"

text \<open>A gateway whose clock starts at 1700000000000 (2023-11-14T22:13:20.000Z) and
  advances by a millisecond at every reading, whose time stamps are rendered as the
  runtime does for the first ten milliseconds from there, whose first random number reads
  \<open>0.1111111111\<close> in base 36 and the later ones \<open>0.2222222222\<close>, and whose broker
  connection works.\<close>

definition gateway0 :: gateway where
  "gateway0 =
     \<lparr>clock = (\<lambda>k. 1700000000000 + k), clock_reads = 0,
      random = (\<lambda>k. if k = 0 then [1, 1, 1, 1, 1, 1, 1, 1, 1, 1]
                    else [2, 2, 2, 2, 2, 2, 2, 2, 2, 2]),
      random_reads = 0,
      toISOString = (\<lambda>t. ''2023-11-14T22:13:20.00'' @ decimal (t - 1700000000000) @ ''Z''),
      connection = Established,
      eventsAccepted = [], eventsProcessed = [], eventsFailed = [],
      eventProcessingDuration = [],
      published = []\<rparr>"

text \<open>The value at a path of property names.\<close>

fun at :: "json \<Rightarrow> string list \<Rightarrow> json" where
  "at v [] = v"
| "at v (k # ks) = at (getProp v k) ks"

text \<open>The format \<open>gateway-<digits>-<lowercase alphanumerics>\<close>: \<open>split_generated\<close>
  returns the digits and the suffix of a string of that form; \<open>generated_format\<close> is the
  pattern \<open>^gateway-\d+-[a-z0-9]{9}$\<close>.\<close>

definition is_digit :: "char \<Rightarrow> bool" where
  "is_digit c = (c \<in> set ''0123456789'')"

definition is_lower_alnum :: "char \<Rightarrow> bool" where
  "is_lower_alnum c = (c \<in> set ''0123456789abcdefghijklmnopqrstuvwxyz'')"

definition split_generated :: "string \<Rightarrow> (string \<times> string) option" where
  "split_generated s =
     (if prefix ''gateway-'' s then
        (let r = drop 8 s; ds = takeWhile is_digit r in
         case dropWhile is_digit r of
           [] \<Rightarrow> None
         | c # suf \<Rightarrow>
             if ds \<noteq> [] \<and> c = CHR ''-'' \<and> list_all is_lower_alnum suf then Some (ds, suf)
             else None)
      else None)"

definition generated_format :: "string \<Rightarrow> bool" where
  "generated_format s = (case split_generated s of Some (ds, suf) \<Rightarrow> length suf = 9 | None \<Rightarrow> False)"

text \<open>The random number \<open>0.5\<close>, which reads \<open>0.i\<close> in base 36, and a gateway that draws it.\<close>

definition half :: "nat \<Rightarrow> nat list" where
  "half k = [18]"

definition gatewayHalf :: gateway where
  "gatewayHalf = gateway0\<lparr>random := half\<rparr>"

text \<open>The paths from a schema to its leaves, the fields it declares.\<close>

fun leafPaths :: "schema \<Rightarrow> string list list"
  and shapePaths :: "(string \<times> schema) list \<Rightarrow> string list list"
where
  "leafPaths (ZObject shape) = shapePaths shape"
| "leafPaths ZString = [[]]"
| "leafPaths ZNumber = [[]]"
| "leafPaths (ZLiteral l) = [[]]"
| "leafPaths (ZEnum opts) = [[]]"
| "leafPaths ZAny = [[]]"
| "leafPaths (ZUnion opts) = [[]]"
| "shapePaths [] = []"
| "shapePaths ((k, s) # shape) = map ((#) k) (leafPaths s) @ shapePaths shape"


definition facebookStringAge :: json where
  "facebookStringAge = JObj
     [(''eventId'', JStr ''fb-event-123''),
      (''timestamp'', JStr ''2024-01-15T10:00:00Z''),
      (''source'', JStr ''facebook''),
      (''funnelStage'', JStr ''top''),
      (''eventType'', JStr ''ad.view''),
      (''data'', JObj
         [(''user'', JObj
            [(''userId'', JStr ''user-123''),
             (''name'', JStr ''John Doe''),
             (''age'', JStr ''28''),
             (''gender'', JStr ''male''),
             (''location'', JObj [(''country'', JStr ''US''), (''city'', JStr ''New York'')])]),
          (''engagement'', JObj [])])]"

definition tiktokStringFollowers :: json where
  "tiktokStringFollowers = JObj
     [(''eventId'', JStr ''ttk-event-123''),
      (''timestamp'', JStr ''2024-01-15T10:00:00Z''),
      (''source'', JStr ''tiktok''),
      (''funnelStage'', JStr ''bottom''),
      (''eventType'', JStr ''purchase''),
      (''data'', JObj
         [(''user'', JObj
            [(''userId'', JStr ''user-456''),
             (''username'', JStr ''johndoe_ttk''),
             (''followers'', JStr ''1500'')]),
          (''engagement'', JObj [])])]"

definition facebookWithCampaign :: json where
  "facebookWithCampaign = JObj (ownProps mockFacebookEvent @ [(''campaignId'', JStr ''spring-24'')])"

text \<open>The schema an accepted event belongs to, by its \<open>source\<close>.\<close>

definition schemaOf :: "json \<Rightarrow> schema" where
  "schemaOf ev = (if getProp ev ''source'' = JStr ''facebook'' then FacebookEventSchema
                  else TiktokEventSchema)"


text \<open>The state a subscription callback passes to the handler, after it has logged the
  receipt, and the line it logs when the handler throws.\<close>

definition afterReceipt :: "string \<Rightarrow> json \<Rightarrow> 'db collector \<Rightarrow> 'db collector" where
  "afterReceipt subject data st =
     writeLog ''info'' ''Received event from stream''
       [(''subject'', LJson (JStr subject)),
        (''correlationId'', LJson (getProp data ''correlationId'')),
        (''eventId'', LJson (getProp data ''eventId''))] st"

definition failureEntry :: "string \<Rightarrow> json \<Rightarrow> exn \<Rightarrow> log_entry" where
  "failureEntry subject data error =
     Log ''error'' ''Failed to process received event''
       [(''subject'', LJson (JStr subject)), (''data'', LSerialized data),
        (''trace'', LTrace error), (''error'', LJson (JBool True))]"

text \<open>A collector with an established connection and nothing registered or logged, whose
  sink is the list of stored events; two messages; and a handler that throws on the
  first of them and stores any other event.\<close>

definition collector0 :: "json list collector" where
  "collector0 =
     \<lparr>clock = (\<lambda>k. 1700000000000 + k), clock_reads = 0,
      random = (\<lambda>k. [1]), random_reads = 0,
      toISOString = (\<lambda>t. ''2023-11-14T22:13:20.000Z''),
      connection = Established,
      eventsAccepted = [], eventsProcessed = [], eventsFailed = [],
      eventProcessingDuration = [],
      jetStream = AddsStream, subscriptions = [], logs = [], db = []\<rparr>"

definition messageA :: json where
  "messageA = JObj
     [(''eventId'', JStr ''event-A''), (''source'', JStr ''facebook''),
      (''funnelStage'', JStr ''top''), (''eventType'', JStr ''ad.view''),
      (''correlationId'', JStr ''corr-A'')]"

definition messageB :: json where
  "messageB = JObj
     [(''eventId'', JStr ''event-B''), (''source'', JStr ''facebook''),
      (''funnelStage'', JStr ''top''), (''eventType'', JStr ''ad.view''),
      (''correlationId'', JStr ''corr-B'')]"

definition throwingHandler :: "json list handler" where
  "throwingHandler event correlationId st =
     (if getProp event ''eventId'' = JStr ''event-A''
      then (Inl (Error ''Handler processing failed''), st)
      else (Inr (), st\<lparr>db := db st @ [event]\<rparr>))"

text \<open>A sink that fails on the first message and stores any other event.\<close>

definition failingSink :: "json list sink" where
  "failingSink event correlationId d =
     (if getProp event ''eventId'' = JStr ''event-A''
      then (Inl (Error ''Database write failed''), d)
      else (Inr (), d @ [event]))"

text \<open>The rules that say when a schema accepts.\<close>

named_theorems accepts

section \<open>Correlation identifiers\<close>

lemma decimal_digits: "list_all is_digit (decimal n) \<and> decimal n \<noteq> []"
proof (induction n rule: decimal.induct)
  case (1 n)
  have d: "\<And>k. k < 10 \<Longrightarrow> is_digit (''0123456789'' ! k)"
    unfolding is_digit_def by (rule nth_mem) simp
  show ?case
  proof (cases "n < 10")
    case True
    then show ?thesis by (subst decimal.simps, subst decimal.simps) (simp add: d)
  next
    case False
    then show ?thesis using 1 by (subst decimal.simps, subst decimal.simps) (simp add: d)
  qed
qed

lemma digit36_alnum: "is_lower_alnum (digit36 d)"
  unfolding is_lower_alnum_def digit36_def by (rule nth_mem) simp

lemma dash_not_digit: "\<not> is_digit CHR ''-''"
  by (simp add: is_digit_def)

lemma split_generated_built:
  assumes "list_all is_lower_alnum suf"
  shows "split_generated (''gateway-'' @ decimal n @ ''-'' @ suf) = Some (decimal n, suf)"
proof -
  have a: "takeWhile is_digit (decimal n @ CHR ''-'' # suf) = decimal n"
    using decimal_digits [of n] dash_not_digit
    by (simp add: list_all_iff takeWhile_tail)
  have b: "dropWhile is_digit (decimal n @ CHR ''-'' # suf) = CHR ''-'' # suf"
    using decimal_digits [of n] dash_not_digit
    by (simp add: list_all_iff)
  show ?thesis
    using assms decimal_digits [of n] by (simp add: split_generated_def a b)
qed

lemma generateCorrelationId_eq:
  "generateCorrelationId st =
     (''gateway-'' @ decimal (clock st (clock_reads st)) @ ''-'' @
        take 9 (map digit36 (random st (random_reads st))),
      st\<lparr>clock_reads := Suc (clock_reads st), random_reads := Suc (random_reads st)\<rparr>)"
  by (simp add: generateCorrelationId_def Date_now_def Math_random_def substr_def toString36_def)

lemma take9_alnum: "list_all is_lower_alnum (take 9 (map digit36 r))"
  by (auto simp: list_all_iff digit36_alnum dest!: in_set_takeD)

lemma orGenerate_None:
  "fst (orGenerate None st) =
     ''gateway-'' @ decimal (clock st (clock_reads st)) @ ''-'' @
       take 9 (map digit36 (random st (random_reads st)))"
  by (simp add: orGenerate_def generateCorrelationId_eq)

text \<open>
  C7, as amended.  A supplied identifier that is a non-empty string is returned as it is,
  whatever its length and characters, and nothing is read from the clock or the random
  source.  When none is supplied and the random number drawn is not zero, the identifier
  is \<open>gateway-\<close>, the decimal digits of the clock reading, a dash, and the first nine
  base-36 digits of the random number: a suffix of lowercase alphanumerics of one to nine
  characters, and of nine characters exactly when the random number has at least nine
  digits in base 36.
\<close>

theorem correlation_id_resolution:
  "(s \<noteq> [] \<longrightarrow> orGenerate (Some s) st = (s, st)) \<and>
   (random st (random_reads st) \<noteq> [] \<longrightarrow>
      fst (orGenerate None st) =
        ''gateway-'' @ decimal (clock st (clock_reads st)) @ ''-'' @
          take 9 (map digit36 (random st (random_reads st))) \<and>
      split_generated (fst (orGenerate None st)) =
        Some (decimal (clock st (clock_reads st)),
              take 9 (map digit36 (random st (random_reads st)))) \<and>
      list_all is_lower_alnum (take 9 (map digit36 (random st (random_reads st)))) \<and>
      1 \<le> length (take 9 (map digit36 (random st (random_reads st)))) \<and>
      length (take 9 (map digit36 (random st (random_reads st)))) \<le> 9 \<and>
      (9 \<le> length (random st (random_reads st)) \<longrightarrow>
         length (take 9 (map digit36 (random st (random_reads st)))) = 9))"
proof (intro conjI impI)
  show "s \<noteq> [] \<Longrightarrow> orGenerate (Some s) st = (s, st)"
    by (simp add: orGenerate_def)
  show "fst (orGenerate None st) =
     ''gateway-'' @ decimal (clock st (clock_reads st)) @ ''-'' @
       take 9 (map digit36 (random st (random_reads st)))"
    by (rule orGenerate_None)
  show "split_generated (fst (orGenerate None st)) =
     Some (decimal (clock st (clock_reads st)),
           take 9 (map digit36 (random st (random_reads st))))"
    unfolding orGenerate_None by (rule split_generated_built [OF take9_alnum])
  show "list_all is_lower_alnum (take 9 (map digit36 (random st (random_reads st))))"
    by (rule take9_alnum)
  show "1 \<le> length (take 9 (map digit36 (random st (random_reads st))))"
    if "random st (random_reads st) \<noteq> []"
    using that by (cases "random st (random_reads st)") simp_all
  show "length (take 9 (map digit36 (random st (random_reads st)))) \<le> 9"
    by simp
  show "length (take 9 (map digit36 (random st (random_reads st)))) = 9"
    if "9 \<le> length (random st (random_reads st))"
    using that by simp
qed

text \<open>C7, witness: the header value \<open>custom-corr-456\<close> comes back unchanged; without a
  header the sample gateway, whose random number has ten digits, generates
  \<open>gateway-1700000000000-111111111\<close>, with a suffix of nine characters; and the gateway
  that draws \<open>0.5\<close> generates \<open>gateway-1700000000000-i\<close>, with a suffix of one.\<close>

theorem correlation_id_resolution_witness:
  "''custom-corr-456'' \<noteq> [] \<and>
   orGenerate (Some ''custom-corr-456'') gateway0 = (''custom-corr-456'', gateway0) \<and>
   random gateway0 (random_reads gateway0) \<noteq> [] \<and>
   9 \<le> length (random gateway0 (random_reads gateway0)) \<and>
   fst (orGenerate None gateway0) = ''gateway-1700000000000-111111111'' \<and>
   split_generated (fst (orGenerate None gateway0)) = Some (''1700000000000'', ''111111111'') \<and>
   random gatewayHalf (random_reads gatewayHalf) \<noteq> [] \<and>
   fst (orGenerate None gatewayHalf) = ''gateway-1700000000000-i'' \<and>
   split_generated (fst (orGenerate None gatewayHalf)) = Some (''1700000000000'', ''i'')"
proof -
  note t = correlation_id_resolution [of "''custom-corr-456''" gateway0]
  note h = correlation_id_resolution [of "''custom-corr-456''" gatewayHalf]
  have n: "random gateway0 (random_reads gateway0) \<noteq> []"
    and n9: "9 \<le> length (random gateway0 (random_reads gateway0))"
    by (simp_all add: gateway0_def)
  have m: "random gatewayHalf (random_reads gatewayHalf) \<noteq> []"
    by (simp add: gatewayHalf_def half_def)
  have a: "orGenerate (Some ''custom-corr-456'') gateway0 = (''custom-corr-456'', gateway0)"
    using t [THEN conjunct1] by simp
  note t2 = t [THEN conjunct2, rule_format, OF n]
  note h2 = h [THEN conjunct2, rule_format, OF m]
  have b: "fst (orGenerate None gateway0) = ''gateway-1700000000000-111111111''"
    using t2 [THEN conjunct1]
    by (simp add: gateway0_def decimal.simps digit36_def)
  have c: "split_generated (fst (orGenerate None gateway0)) =
      Some (''1700000000000'', ''111111111'')"
    using t2 [THEN conjunct2, THEN conjunct1]
    by (simp add: gateway0_def decimal.simps digit36_def)
  have d: "fst (orGenerate None gatewayHalf) = ''gateway-1700000000000-i''"
    using h2 [THEN conjunct1]
    by (simp add: gatewayHalf_def half_def gateway0_def decimal.simps digit36_def)
  have e: "split_generated (fst (orGenerate None gatewayHalf)) =
      Some (''1700000000000'', ''i'')"
    using h2 [THEN conjunct2, THEN conjunct1]
    by (simp add: gatewayHalf_def half_def gateway0_def decimal.simps digit36_def)
  show ?thesis using a b c d e n n9 m by simp
qed

text \<open>C7, counterexample to the nine-character suffix: when the random number is \<open>0.5\<close>
  the generated identifier is \<open>gateway-1700000000000-i\<close>, which the pattern
  \<open>^gateway-\d+-[a-z0-9]{9}$\<close> does not match.\<close>

theorem generated_suffix_counterexample:
  "fst (generateCorrelationId gatewayHalf) = ''gateway-1700000000000-i'' \<and>
   \<not> generated_format (fst (generateCorrelationId gatewayHalf))"
  by (simp add: generateCorrelationId_eq gatewayHalf_def half_def gateway0_def
      generated_format_def split_generated_def decimal.simps digit36_def
      is_digit_def is_lower_alnum_def)

section \<open>Validation\<close>

text \<open>When a schema accepts: one rule per constructor, used in place of the defining
  equations.\<close>

lemma parse_ZString_Inr [accepts]: "parse ZString p v = Inr w \<longleftrightarrow> (\<exists>s. v = JStr s) \<and> w = v"
  by (cases v) auto
lemma parse_ZNumber_Inr [accepts]: "parse ZNumber p v = Inr w \<longleftrightarrow> (\<exists>n. v = JNum n) \<and> w = v"
  by (cases v) auto
lemma parse_ZLiteral_Inr [accepts]: "parse (ZLiteral l) p v = Inr w \<longleftrightarrow> v = JStr l \<and> w = v"
  by auto
lemma parse_ZEnum_Inr [accepts]: "parse (ZEnum opts) p v = Inr w \<longleftrightarrow> (\<exists>s. v = JStr s \<and> s \<in> set opts) \<and> w = v"
  by (cases v) auto
lemma parse_ZAny_Inr [accepts]: "parse ZAny p v = Inr w \<longleftrightarrow> w = v"
  by auto
lemma parse_ZObject_Inr [accepts]:
  "parse (ZObject shape) p v = Inr w \<longleftrightarrow>
     (\<exists>kvs out. v = JObj kvs \<and> parse_shape shape p kvs = ([], out) \<and> w = JObj out)"
  by (cases v) (auto split: prod.splits list.splits)
lemma parse_not_Inl_Nil: "parse s p v \<noteq> Inl []"
  by (cases s; cases v) (auto split: sum.splits prod.splits list.splits)
lemma parse_shape_Cons_ok [accepts]:
  "parse_shape ((k, s) # shape) p kvs = ([], out) \<longleftrightarrow>
     (\<exists>v out'. parse s (p @ [k]) (lookup kvs k) = Inr v \<and> parse_shape shape p kvs = ([], out') \<and>
        out = (if v = JUndef \<and> k \<notin> fst ` set kvs then out' else (k, v) # out'))"
  using parse_not_Inl_Nil by (auto split: prod.splits sum.splits)
lemma parse_shape_Nil_ok [accepts]: "parse_shape [] p kvs = ([], out) \<longleftrightarrow> out = []"
  by auto

lemma fb_structure:
  assumes "parse FacebookEventSchema p raw = Inr ev"
  shows "\<exists>eid ts stage ety uid name age g country city.
     at raw [''eventId''] = JStr eid \<and> at raw [''timestamp''] = JStr ts \<and>
     at raw [''source''] = JStr ''facebook'' \<and> at raw [''funnelStage''] = JStr stage \<and>
     at raw [''eventType''] = JStr ety \<and>
     at raw [''data'', ''user'', ''userId''] = JStr uid \<and>
     at raw [''data'', ''user'', ''name''] = JStr name \<and>
     at raw [''data'', ''user'', ''age''] = JNum age \<and>
     at raw [''data'', ''user'', ''gender''] = JStr g \<and>
     at raw [''data'', ''user'', ''location'', ''country''] = JStr country \<and>
     at raw [''data'', ''user'', ''location'', ''city''] = JStr city \<and>
     stage \<in> set [''top'', ''bottom''] \<and> g \<in> set [''male'', ''female'', ''non-binary''] \<and>
     ev = JObj
       [(''eventId'', JStr eid), (''timestamp'', JStr ts), (''source'', JStr ''facebook''),
        (''funnelStage'', JStr stage), (''eventType'', JStr ety),
        (''data'', JObj
           ((''user'', JObj
              [(''userId'', JStr uid), (''name'', JStr name), (''age'', JNum age),
               (''gender'', JStr g),
               (''location'', JObj [(''country'', JStr country), (''city'', JStr city)])])
            # (if at raw [''data'', ''engagement''] = JUndef \<and>
                  ''engagement'' \<notin> fst ` set (ownProps (at raw [''data'']))
               then [] else [(''engagement'', at raw [''data'', ''engagement''])])))]"
  using assms
  apply (simp add: FacebookEventSchema_def accepts del: parse.simps parse_shape.simps)
  apply (elim exE conjE)
  apply (simp del: parse.simps parse_shape.simps)
  done

lemma tt_structure:
  assumes "parse TiktokEventSchema p raw = Inr ev"
  shows "\<exists>eid ts stage ety uid uname fol.
     at raw [''eventId''] = JStr eid \<and> at raw [''timestamp''] = JStr ts \<and>
     at raw [''source''] = JStr ''tiktok'' \<and> at raw [''funnelStage''] = JStr stage \<and>
     at raw [''eventType''] = JStr ety \<and>
     at raw [''data'', ''user'', ''userId''] = JStr uid \<and>
     at raw [''data'', ''user'', ''username''] = JStr uname \<and>
     at raw [''data'', ''user'', ''followers''] = JNum fol \<and>
     stage \<in> set [''top'', ''bottom''] \<and>
     ev = JObj
       [(''eventId'', JStr eid), (''timestamp'', JStr ts), (''source'', JStr ''tiktok''),
        (''funnelStage'', JStr stage), (''eventType'', JStr ety),
        (''data'', JObj
           ((''user'', JObj
              [(''userId'', JStr uid), (''username'', JStr uname), (''followers'', JNum fol)])
            # (if at raw [''data'', ''engagement''] = JUndef \<and>
                  ''engagement'' \<notin> fst ` set (ownProps (at raw [''data'']))
               then [] else [(''engagement'', at raw [''data'', ''engagement''])])))]"
  using assms
  apply (simp add: TiktokEventSchema_def accepts del: parse.simps parse_shape.simps)
  apply (elim exE conjE)
  apply (simp del: parse.simps parse_shape.simps)
  done

lemma fb_source: "parse FacebookEventSchema p raw = Inr ev \<Longrightarrow> getProp raw ''source'' = JStr ''facebook''"
  by (drule fb_structure) auto

lemma tt_source: "parse TiktokEventSchema p raw = Inr ev \<Longrightarrow> getProp raw ''source'' = JStr ''tiktok''"
  by (drule tt_structure) auto

lemma not_both: "parse FacebookEventSchema p raw = Inr a \<Longrightarrow> parse TiktokEventSchema q raw = Inr b \<Longrightarrow> False"
  by (drule fb_source, drule tt_source) simp

lemma validateFacebookEvent_Inr: "validateFacebookEvent raw = Inr ev \<longleftrightarrow> parse FacebookEventSchema [] raw = Inr ev"
  by (simp add: validateFacebookEvent_def split: sum.splits)

lemma validateTiktokEvent_Inr: "validateTiktokEvent raw = Inr ev \<longleftrightarrow> parse TiktokEventSchema [] raw = Inr ev"
  by (simp add: validateTiktokEvent_def split: sum.splits)

lemma validateEvent_Inr:
  "validateEvent raw = Inr ev \<longleftrightarrow>
     parse FacebookEventSchema [] raw = Inr ev \<or> parse TiktokEventSchema [] raw = Inr ev"
  using not_both [of "[]" raw _ "[]" ev]
  by (auto simp: validateEvent_def EventSchema_def split: sum.splits)

lemma validateEvent_cases:
  "(\<exists>ev. validateEvent raw = Inr ev) \<or> (\<exists>z. validateEvent raw = Inl (BadRequestException (''Invalid event format: '' @ z)))"
  by (auto simp: validateEvent_def split: sum.splits)

text \<open>
  C5.  The combined validator accepts an input with a result exactly when one of the two
  dedicated validators accepts it with that result; no input is accepted by both
  dedicated validators; and every input is either accepted or rejected with a
  \<open>BadRequestException\<close>.  So an accepted input has exactly one of the two shapes, and
  an input with neither shape is never accepted.
\<close>

theorem validation_discriminates:
  "(validateEvent raw = Inr ev \<longleftrightarrow>
      validateFacebookEvent raw = Inr ev \<or> validateTiktokEvent raw = Inr ev) \<and>
   \<not> (\<exists>a b. validateFacebookEvent raw = Inr a \<and> validateTiktokEvent raw = Inr b) \<and>
   ((\<exists>v. validateEvent raw = Inr v) \<or> (\<exists>m. validateEvent raw = Inl (BadRequestException m)))"
  using not_both [of "[]" raw _ "[]"] validateEvent_cases [of raw]
  by (auto simp: validateEvent_Inr validateFacebookEvent_Inr validateTiktokEvent_Inr)

lemma mock_fb_ok: "parse FacebookEventSchema [] mockFacebookEvent = Inr mockFacebookEvent"
  by (simp add: FacebookEventSchema_def mockFacebookEvent_def lookup_def)

lemma mock_tt_ok: "parse TiktokEventSchema [] mockTiktokEvent = Inr mockTiktokEvent"
  by (simp add: TiktokEventSchema_def mockTiktokEvent_def lookup_def)

text \<open>C5, witness: the sample Facebook event is accepted by the combined and by the
  Facebook validator, and by the TikTok validator it is not.\<close>

theorem validation_discriminates_witness:
  "validateEvent mockFacebookEvent = Inr mockFacebookEvent \<and>
   validateFacebookEvent mockFacebookEvent = Inr mockFacebookEvent \<and>
   (\<forall>b. validateTiktokEvent mockFacebookEvent \<noteq> Inr b)"
  using validation_discriminates [of mockFacebookEvent mockFacebookEvent] mock_fb_ok
  by (auto simp: validateFacebookEvent_Inr)

lemma validateFacebookEvent_cases:
  "(\<exists>ev. validateFacebookEvent raw = Inr ev) \<or>
   (\<exists>z. validateFacebookEvent raw = Inl (BadRequestException (''Invalid Facebook event format: '' @ z)))"
  by (auto simp: validateFacebookEvent_def split: sum.splits)

lemma validateTiktokEvent_cases:
  "(\<exists>ev. validateTiktokEvent raw = Inr ev) \<or>
   (\<exists>z. validateTiktokEvent raw = Inl (BadRequestException (''Invalid TikTok event format: '' @ z)))"
  by (auto simp: validateTiktokEvent_def split: sum.splits)

lemma fb_age: "parse FacebookEventSchema p raw = Inr ev \<Longrightarrow> \<exists>n. at raw [''data'', ''user'', ''age''] = JNum n"
  by (drule fb_structure) blast




lemma tt_followers: "parse TiktokEventSchema p raw = Inr ev \<Longrightarrow> \<exists>n. at raw [''data'', ''user'', ''followers''] = JNum n"
  by (drule tt_structure) blast

text \<open>
  C9.  When \<open>data.user.age\<close> is a string, numeric-looking or not, the Facebook validator
  rejects the input, and so does the combined validator when the source is
  \<open>facebook\<close>; likewise for \<open>data.user.followers\<close>, the TikTok validator and the source
  \<open>tiktok\<close>.  No validator turns a string into a number.
\<close>

theorem numeric_fields_not_coerced:
  "(at raw [''data'', ''user'', ''age''] = JStr s \<longrightarrow>
      (\<exists>m. validateFacebookEvent raw = Inl (BadRequestException m)) \<and>
      (getProp raw ''source'' = JStr ''facebook'' \<longrightarrow>
         (\<exists>m. validateEvent raw = Inl (BadRequestException m)))) \<and>
   (at raw [''data'', ''user'', ''followers''] = JStr s \<longrightarrow>
      (\<exists>m. validateTiktokEvent raw = Inl (BadRequestException m)) \<and>
      (getProp raw ''source'' = JStr ''tiktok'' \<longrightarrow>
         (\<exists>m. validateEvent raw = Inl (BadRequestException m))))"
proof (intro conjI impI)
  assume a: "at raw [''data'', ''user'', ''age''] = JStr s"
  have nf: "\<And>ev. parse FacebookEventSchema [] raw \<noteq> Inr ev"
    using fb_age [of "[]" raw] a by auto
  show "\<exists>m. validateFacebookEvent raw = Inl (BadRequestException m)"
    using validateFacebookEvent_cases [of raw] nf by (auto simp: validateFacebookEvent_Inr)
  assume "getProp raw ''source'' = JStr ''facebook''"
  then have nt: "\<And>ev. parse TiktokEventSchema [] raw \<noteq> Inr ev"
    using tt_source [of "[]" raw] by auto
  show "\<exists>m. validateEvent raw = Inl (BadRequestException m)"
    using validateEvent_cases [of raw] nf nt by (auto simp: validateEvent_Inr)
next
  assume a: "at raw [''data'', ''user'', ''followers''] = JStr s"
  have nt: "\<And>ev. parse TiktokEventSchema [] raw \<noteq> Inr ev"
    using tt_followers [of "[]" raw] a by auto
  show "\<exists>m. validateTiktokEvent raw = Inl (BadRequestException m)"
    using validateTiktokEvent_cases [of raw] nt by (auto simp: validateTiktokEvent_Inr)
  assume "getProp raw ''source'' = JStr ''tiktok''"
  then have nf: "\<And>ev. parse FacebookEventSchema [] raw \<noteq> Inr ev"
    using fb_source [of "[]" raw] by auto
  show "\<exists>m. validateEvent raw = Inl (BadRequestException m)"
    using validateEvent_cases [of raw] nf nt by (auto simp: validateEvent_Inr)
qed

text \<open>C9, witness: the sample Facebook event with \<open>age: "28"\<close> and the sample TikTok event
  with \<open>followers: "1500"\<close> are rejected.\<close>

theorem numeric_fields_not_coerced_witness:
  "at facebookStringAge [''data'', ''user'', ''age''] = JStr ''28'' \<and>
   getProp facebookStringAge ''source'' = JStr ''facebook'' \<and>
   (\<exists>m. validateFacebookEvent facebookStringAge = Inl (BadRequestException m)) \<and>
   (\<exists>m. validateEvent facebookStringAge = Inl (BadRequestException m)) \<and>
   at tiktokStringFollowers [''data'', ''user'', ''followers''] = JStr ''1500'' \<and>
   getProp tiktokStringFollowers ''source'' = JStr ''tiktok'' \<and>
   (\<exists>m. validateTiktokEvent tiktokStringFollowers = Inl (BadRequestException m)) \<and>
   (\<exists>m. validateEvent tiktokStringFollowers = Inl (BadRequestException m))"
proof -
  have a: "at facebookStringAge [''data'', ''user'', ''age''] = JStr ''28''"
    and b: "getProp facebookStringAge ''source'' = JStr ''facebook''"
    by (simp_all add: facebookStringAge_def lookup_def)
  have c: "at tiktokStringFollowers [''data'', ''user'', ''followers''] = JStr ''1500''"
    and d: "getProp tiktokStringFollowers ''source'' = JStr ''tiktok''"
    by (simp_all add: tiktokStringFollowers_def lookup_def)
  show ?thesis
    using numeric_fields_not_coerced [of facebookStringAge "''28''"]
      numeric_fields_not_coerced [of tiktokStringFollowers "''1500''"] a b c d
    by blast
qed




lemma fb_fields:
  assumes "parse FacebookEventSchema p raw = Inr ev"
  shows "(\<forall>path \<in> set (leafPaths FacebookEventSchema). at ev path = at raw path) \<and>
         parse FacebookEventSchema q ev = Inr ev \<and>
         map fst (ownProps ev) =
           [''eventId'', ''timestamp'', ''source'', ''funnelStage'', ''eventType'', ''data''] \<and>
         set (map fst (ownProps (at ev [''data'']))) \<subseteq> {''user'', ''engagement''} \<and>
         map fst (ownProps (at ev [''data'', ''user''])) =
           [''userId'', ''name'', ''age'', ''gender'', ''location''] \<and>
         map fst (ownProps (at ev [''data'', ''user'', ''location''])) = [''country'', ''city'']"
proof -
  from fb_structure [OF assms] obtain eid ts stage ety uid name age g country city where
    r: "at raw [''eventId''] = JStr eid" "at raw [''timestamp''] = JStr ts"
     "at raw [''source''] = JStr ''facebook''" "at raw [''funnelStage''] = JStr stage"
     "at raw [''eventType''] = JStr ety"
     "at raw [''data'', ''user'', ''userId''] = JStr uid"
     "at raw [''data'', ''user'', ''name''] = JStr name"
     "at raw [''data'', ''user'', ''age''] = JNum age"
     "at raw [''data'', ''user'', ''gender''] = JStr g"
     "at raw [''data'', ''user'', ''location'', ''country''] = JStr country"
     "at raw [''data'', ''user'', ''location'', ''city''] = JStr city"
    and m: "stage \<in> set [''top'', ''bottom'']" "g \<in> set [''male'', ''female'', ''non-binary'']"
    and ev: "ev = JObj
       [(''eventId'', JStr eid), (''timestamp'', JStr ts), (''source'', JStr ''facebook''),
        (''funnelStage'', JStr stage), (''eventType'', JStr ety),
        (''data'', JObj
           ((''user'', JObj
              [(''userId'', JStr uid), (''name'', JStr name), (''age'', JNum age),
               (''gender'', JStr g),
               (''location'', JObj [(''country'', JStr country), (''city'', JStr city)])])
            # (if at raw [''data'', ''engagement''] = JUndef \<and>
                  ''engagement'' \<notin> fst ` set (ownProps (at raw [''data'']))
               then [] else [(''engagement'', at raw [''data'', ''engagement''])])))]"
    by blast
  have 1: "\<forall>path \<in> set (leafPaths FacebookEventSchema). at ev path = at raw path"
    using r by (simp add: FacebookEventSchema_def ev lookup_def)
  have 2: "parse FacebookEventSchema q ev = Inr ev"
    using m by (simp add: FacebookEventSchema_def ev lookup_def)
  have 3: "map fst (ownProps ev) =
           [''eventId'', ''timestamp'', ''source'', ''funnelStage'', ''eventType'', ''data'']"
    by (simp add: ev)
  have 4: "set (map fst (ownProps (at ev [''data'']))) \<subseteq> {''user'', ''engagement''}"
    and 5: "map fst (ownProps (at ev [''data'', ''user''])) =
           [''userId'', ''name'', ''age'', ''gender'', ''location'']"
    and 6: "map fst (ownProps (at ev [''data'', ''user'', ''location''])) = [''country'', ''city'']"
    by (simp_all add: ev lookup_def)
  show ?thesis using 1 2 3 4 5 6 by blast
qed


lemma tt_fields:
  assumes "parse TiktokEventSchema p raw = Inr ev"
  shows "(\<forall>path \<in> set (leafPaths TiktokEventSchema). at ev path = at raw path) \<and>
         parse TiktokEventSchema q ev = Inr ev \<and>
         map fst (ownProps ev) =
           [''eventId'', ''timestamp'', ''source'', ''funnelStage'', ''eventType'', ''data''] \<and>
         set (map fst (ownProps (at ev [''data'']))) \<subseteq> {''user'', ''engagement''} \<and>
         map fst (ownProps (at ev [''data'', ''user''])) = [''userId'', ''username'', ''followers'']"
proof -
  from tt_structure [OF assms] obtain eid ts stage ety uid uname fol where
    r: "at raw [''eventId''] = JStr eid" "at raw [''timestamp''] = JStr ts"
     "at raw [''source''] = JStr ''tiktok''" "at raw [''funnelStage''] = JStr stage"
     "at raw [''eventType''] = JStr ety"
     "at raw [''data'', ''user'', ''userId''] = JStr uid"
     "at raw [''data'', ''user'', ''username''] = JStr uname"
     "at raw [''data'', ''user'', ''followers''] = JNum fol"
    and m: "stage \<in> set [''top'', ''bottom'']"
    and ev: "ev = JObj
       [(''eventId'', JStr eid), (''timestamp'', JStr ts), (''source'', JStr ''tiktok''),
        (''funnelStage'', JStr stage), (''eventType'', JStr ety),
        (''data'', JObj
           ((''user'', JObj
              [(''userId'', JStr uid), (''username'', JStr uname), (''followers'', JNum fol)])
            # (if at raw [''data'', ''engagement''] = JUndef \<and>
                  ''engagement'' \<notin> fst ` set (ownProps (at raw [''data'']))
               then [] else [(''engagement'', at raw [''data'', ''engagement''])])))]"
    by blast
  have 1: "\<forall>path \<in> set (leafPaths TiktokEventSchema). at ev path = at raw path"
    using r by (simp add: TiktokEventSchema_def ev lookup_def)
  have 2: "parse TiktokEventSchema q ev = Inr ev"
    using m by (simp add: TiktokEventSchema_def ev lookup_def)
  have 3: "map fst (ownProps ev) =
           [''eventId'', ''timestamp'', ''source'', ''funnelStage'', ''eventType'', ''data'']"
    by (simp add: ev)
  have 4: "set (map fst (ownProps (at ev [''data'']))) \<subseteq> {''user'', ''engagement''}"
    and 5: "map fst (ownProps (at ev [''data'', ''user''])) = [''userId'', ''username'', ''followers'']"
    by (simp_all add: ev lookup_def)
  show ?thesis using 1 2 3 4 5 by blast
qed

text \<open>
  C8, as amended.  The value the combined validator returns for an accepted input agrees
  with the input on every field the schema declares, the nested user fields and the whole
  \<open>engagement\<close> value included; validating it again returns it unchanged; and it has the
  six top-level keys of the schema and, in \<open>data\<close>, \<open>data.user\<close> and
  \<open>data.user.location\<close>, no key but the declared ones.  Keys of the input that the schema
  does not declare are not part of the returned value.
\<close>

theorem validated_event_fields:
  assumes "validateEvent raw = Inr ev"
  shows "(\<forall>path \<in> set (leafPaths (schemaOf ev)). at ev path = at raw path) \<and>
         validateEvent ev = Inr ev \<and>
         map fst (ownProps ev) =
           [''eventId'', ''timestamp'', ''source'', ''funnelStage'', ''eventType'', ''data''] \<and>
         set (map fst (ownProps (at ev [''data'']))) \<subseteq> {''user'', ''engagement''} \<and>
         set (map fst (ownProps (at ev [''data'', ''user'']))) \<subseteq>
           {''userId'', ''name'', ''age'', ''gender'', ''location'', ''username'', ''followers''} \<and>
         set (map fst (ownProps (at ev [''data'', ''user'', ''location'']))) \<subseteq>
           {''country'', ''city''}"
proof -
  from assms consider
    (fb) "parse FacebookEventSchema [] raw = Inr ev" | (tt) "parse TiktokEventSchema [] raw = Inr ev"
    unfolding validateEvent_Inr by blast
  then show ?thesis
  proof cases
    case fb
    from fb_fields [OF fb, of "[]"] have
      f: "\<forall>path \<in> set (leafPaths FacebookEventSchema). at ev path = at raw path"
      and i: "parse FacebookEventSchema [] ev = Inr ev"
      and k: "map fst (ownProps ev) =
           [''eventId'', ''timestamp'', ''source'', ''funnelStage'', ''eventType'', ''data'']"
      and d: "set (map fst (ownProps (at ev [''data'']))) \<subseteq> {''user'', ''engagement''}"
      and u: "map fst (ownProps (at ev [''data'', ''user''])) =
           [''userId'', ''name'', ''age'', ''gender'', ''location'']"
      and l: "map fst (ownProps (at ev [''data'', ''user'', ''location''])) = [''country'', ''city'']"
      by blast+
    have "schemaOf ev = FacebookEventSchema"
      using fb_source [OF i] by (simp add: schemaOf_def)
    then show ?thesis using f i k d unfolding u l by (simp add: validateEvent_Inr)
  next
    case tt
    from tt_fields [OF tt, of "[]"] have
      f: "\<forall>path \<in> set (leafPaths TiktokEventSchema). at ev path = at raw path"
      and i: "parse TiktokEventSchema [] ev = Inr ev"
      and k: "map fst (ownProps ev) =
           [''eventId'', ''timestamp'', ''source'', ''funnelStage'', ''eventType'', ''data'']"
      and d: "set (map fst (ownProps (at ev [''data'']))) \<subseteq> {''user'', ''engagement''}"
      and u: "map fst (ownProps (at ev [''data'', ''user''])) = [''userId'', ''username'', ''followers'']"
      by blast+
    have l: "ownProps (at ev [''data'', ''user'', ''location'']) = []"
      using u by (cases "at ev [''data'', ''user'']") (auto simp: lookup_def split: option.splits dest: map_of_SomeD)
    have "schemaOf ev = TiktokEventSchema"
      using tt_source [OF i] by (simp add: schemaOf_def)
    then show ?thesis using f i k d unfolding u l by (simp add: validateEvent_Inr)
  qed
qed

lemma campaign_stripped: "validateEvent facebookWithCampaign = Inr mockFacebookEvent"
  by (simp add: validateEvent_Inr FacebookEventSchema_def facebookWithCampaign_def
      mockFacebookEvent_def lookup_def)

text \<open>C8, witness: the sample Facebook event with an extra \<open>campaignId\<close> is accepted, and
  the returned value agrees with it on the declared fields.\<close>

theorem validated_event_fields_witness:
  "validateEvent facebookWithCampaign = Inr mockFacebookEvent \<and>
   at mockFacebookEvent [''data'', ''user'', ''location'', ''city''] =
     at facebookWithCampaign [''data'', ''user'', ''location'', ''city''] \<and>
   at mockFacebookEvent [''data'', ''engagement''] = at facebookWithCampaign [''data'', ''engagement''] \<and>
   validateEvent mockFacebookEvent = Inr mockFacebookEvent"
proof -
  note t = validated_event_fields [OF campaign_stripped]
  have s: "schemaOf mockFacebookEvent = FacebookEventSchema"
    by (simp add: schemaOf_def mockFacebookEvent_def lookup_def)
  have "\<forall>path \<in> set (leafPaths FacebookEventSchema).
          at mockFacebookEvent path = at facebookWithCampaign path"
    using t s by simp
  then have "at mockFacebookEvent [''data'', ''user'', ''location'', ''city''] =
     at facebookWithCampaign [''data'', ''user'', ''location'', ''city'']"
    and "at mockFacebookEvent [''data'', ''engagement''] = at facebookWithCampaign [''data'', ''engagement'']"
    by (simp_all add: FacebookEventSchema_def)
  then show ?thesis using t campaign_stripped by blast
qed

text \<open>C8, counterexample to the unchanged pass-through: for the sample Facebook event with
  an extra \<open>campaignId\<close> the returned value differs from the input, the key
  \<open>campaignId\<close> being gone.\<close>

theorem unknown_key_counterexample:
  "validateEvent facebookWithCampaign = Inr mockFacebookEvent \<and>
   facebookWithCampaign \<noteq> mockFacebookEvent \<and>
   getProp facebookWithCampaign ''campaignId'' = JStr ''spring-24'' \<and>
   getProp mockFacebookEvent ''campaignId'' = JUndef"
  by (simp add: campaign_stripped) (simp add: facebookWithCampaign_def mockFacebookEvent_def lookup_def)

section \<open>Ingestion\<close>

lemma orGenerate_keeps:
  "connection (snd (orGenerate c st)) = connection st \<and>
   published (snd (orGenerate c st)) = published st \<and>
   clock (snd (orGenerate c st)) = clock st \<and>
   toISOString (snd (orGenerate c st)) = toISOString st \<and>
   eventsAccepted (snd (orGenerate c st)) = eventsAccepted st \<and>
   eventsProcessed (snd (orGenerate c st)) = eventsProcessed st \<and>
   eventsFailed (snd (orGenerate c st)) = eventsFailed st"
  by (simp add: orGenerate_def generateCorrelationId_eq split: option.splits)

lemma validated_form:
  assumes "validateEvent raw = Inr ev"
  shows "\<exists>eid ts src stage ety d. ev = JObj [(''eventId'', JStr eid), (''timestamp'', JStr ts),
        (''source'', JStr src), (''funnelStage'', JStr stage), (''eventType'', JStr ety), (''data'', d)]"
proof -
  from assms consider
    (fb) "parse FacebookEventSchema [] raw = Inr ev" | (tt) "parse TiktokEventSchema [] raw = Inr ev"
    unfolding validateEvent_Inr by blast
  then show ?thesis
  proof cases
    case fb
    from fb_structure [OF fb] show ?thesis by blast
  next
    case tt
    from tt_structure [OF tt] show ?thesis by blast
  qed
qed



lemma mock_fb_valid: "validateEvent mockFacebookEvent = Inr mockFacebookEvent"
  using mock_fb_ok by (simp add: validateEvent_Inr)


text \<open>Without an established connection \<open>publishEvent\<close> fails and nothing is handed to
  the broker.\<close>

lemma publish_fails_fast:
  assumes "connection st \<noteq> Established"
  shows "isl (fst (publishEvent event cid st)) \<and>
         published (snd (publishEvent event cid st)) = published st"
proof -
  have c: "connection (snd (orGenerate cid st)) \<noteq> Established"
    using orGenerate_keeps [of cid st] assms by simp
  have p: "published (snd (orGenerate cid st)) = published st"
    using orGenerate_keeps [of cid st] by simp
  show ?thesis
    using c p
    by (cases "connection (snd (orGenerate cid st))")
       (simp_all add: publishEvent_def publishToStream_def getConnection_def Date_now_def
          case_prod_beta)
qed




text \<open>Without a supplied identifier the published envelope and the response each get an
  identifier of their own, generated from different readings of the clock and of the
  random source; with a supplied one both carry it.\<close>

lemma receiveWebhook_generated:
  assumes "validateEvent raw = Inr event" and "connection st = Established"
  shows "fst (receiveWebhook raw None st) =
      Inr \<lparr>r_success = True, r_eventId = getProp event ''eventId'',
           r_correlationId =
             ''gateway-'' @ decimal (clock st (clock_reads st + 4)) @ ''-'' @
               take 9 (map digit36 (random st (Suc (random_reads st))))\<rparr> \<and>
    published (snd (receiveWebhook raw None st)) =
      published st @
        [(buildSubject event,
          JObj (ownProps event @
            [(''correlationId'',
              JStr (''gateway-'' @ decimal (clock st (Suc (clock_reads st))) @ ''-'' @
                      take 9 (map digit36 (random st (random_reads st))))),
             (''receivedAt'', JStr (toISOString st (clock st (clock_reads st + 2))))]))]"
proof -
  from validated_form [OF assms(1)] obtain eid ts src stage ety d where
    ev: "event = JObj [(''eventId'', JStr eid), (''timestamp'', JStr ts),
        (''source'', JStr src), (''funnelStage'', JStr stage), (''eventType'', JStr ety), (''data'', d)]"
    by blast
  have sp: "setProp (setProp (ownProps event) ''correlationId'' a) ''receivedAt'' b =
      ownProps event @ [(''correlationId'', a), (''receivedAt'', b)]" for a b
    by (simp add: ev setProp_def)
  have e: "n + 4 = Suc (Suc (Suc (Suc n)))" "n + 2 = Suc (Suc n)" for n :: nat
    by simp_all
  show ?thesis
    using assms unfolding e
    by (simp add: receiveWebhook_def processEvent_def publishEvent_def publishToStream_def
        getConnection_def orGenerate_def generateCorrelationId_eq Date_now_def recordMetric_def
        recordProcessingDuration_def sp Let_def)
qed

lemma receiveWebhook_supplied:
  assumes "validateEvent raw = Inr event" and "connection st = Established" and "c \<noteq> []"
  shows "fst (receiveWebhook raw (Some c) st) =
      Inr \<lparr>r_success = True, r_eventId = getProp event ''eventId'', r_correlationId = c\<rparr> \<and>
    published (snd (receiveWebhook raw (Some c) st)) =
      published st @
        [(buildSubject event,
          JObj (ownProps event @
            [(''correlationId'', JStr c),
             (''receivedAt'', JStr (toISOString st (clock st (Suc (clock_reads st)))))]))]"
proof -
  from validated_form [OF assms(1)] obtain eid ts src stage ety d where
    ev: "event = JObj [(''eventId'', JStr eid), (''timestamp'', JStr ts),
        (''source'', JStr src), (''funnelStage'', JStr stage), (''eventType'', JStr ety), (''data'', d)]"
    by blast
  have sp: "setProp (setProp (ownProps event) ''correlationId'' a) ''receivedAt'' b =
      ownProps event @ [(''correlationId'', a), (''receivedAt'', b)]" for a b
    by (simp add: ev setProp_def)
  show ?thesis
    using assms
    by (simp add: receiveWebhook_def processEvent_def publishEvent_def publishToStream_def
        getConnection_def orGenerate_def Date_now_def recordMetric_def
        recordProcessingDuration_def sp Let_def)
qed

text \<open>
  C1, evaluated on the sample gateway: the sample Facebook event is ingested with no
  supplied correlation identifier; the published envelope carries
  \<open>gateway-1700000000001-111111111\<close> and the response returns
  \<open>gateway-1700000000004-222222222\<close>.
\<close>

theorem response_id_is_not_envelope_id:
  "validateEvent mockFacebookEvent = Inr mockFacebookEvent \<and>
   fst (receiveWebhook mockFacebookEvent None gateway0) =
     Inr \<lparr>r_success = True, r_eventId = JStr ''fb-event-123'',
          r_correlationId = ''gateway-1700000000004-222222222''\<rparr> \<and>
   published (snd (receiveWebhook mockFacebookEvent None gateway0)) =
     [(''events.facebook.top'',
       JObj (ownProps mockFacebookEvent @
         [(''correlationId'', JStr ''gateway-1700000000001-111111111''),
          (''receivedAt'', JStr ''2023-11-14T22:13:20.002Z'')]))]"
proof -
  have c: "connection gateway0 = Established"
    by (simp add: gateway0_def)
  note t = receiveWebhook_generated [OF mock_fb_valid c]
  have 1: "getProp mockFacebookEvent ''eventId'' = JStr ''fb-event-123''"
    and 2: "buildSubject mockFacebookEvent = ''events.facebook.top''"
    by (simp_all add: mockFacebookEvent_def lookup_def buildSubject_def)
  have 3: "''gateway-'' @ decimal (clock gateway0 (clock_reads gateway0 + 4)) @ ''-'' @
               take 9 (map digit36 (random gateway0 (Suc (random_reads gateway0)))) =
           ''gateway-1700000000004-222222222''"
    and 4: "''gateway-'' @ decimal (clock gateway0 (Suc (clock_reads gateway0))) @ ''-'' @
               take 9 (map digit36 (random gateway0 (random_reads gateway0))) =
           ''gateway-1700000000001-111111111''"
    and 5: "toISOString gateway0 (clock gateway0 (clock_reads gateway0 + 2)) =
           ''2023-11-14T22:13:20.002Z''"
    and 6: "published gateway0 = []"
    by (simp_all add: gateway0_def decimal.simps digit36_def)
  show ?thesis
    using t mock_fb_valid unfolding 1 2 3 4 5 6 by simp
qed

section \<open>Consumption\<close>

text \<open>The callback of a subscription returns normally whatever the handler does, and the
  collector's own handlers return normally on every value but \<open>null\<close>: they log the
  failure of the processing themselves.\<close>

lemma messageCallback_returns: "fst (messageCallback subject handler data st) = Inr ()"
  by (simp add: messageCallback_def Let_def split: prod.splits sum.splits)

lemma handleEvent_returns:
  "event \<noteq> JNull \<Longrightarrow> event \<noteq> JUndef \<Longrightarrow>
   fst (handleEvent platform saveEvent ctype event correlationId st) = Inr ()"
  by (simp add: handleEvent_def Let_def split: prod.splits sum.splits)

text \<open>
  C2.  When the handler throws on a delivered message A, the callback of the subscription
  catches the error and returns normally, having logged one error line with the subject
  and the serialized payload; the loop goes on with the remaining messages from the state
  the single handler call left, so the handler is not called again for A; and a next
  message B is handed to the handler, whose result for B is the result of the loop.
\<close>

theorem handler_failure_is_contained:
  assumes "data \<noteq> JNull" and "data \<noteq> JUndef"
    and "handler data (getProp data ''correlationId'') (afterReceipt subject data st) = (Inl error, st1)"
  shows "messageCallback subject handler data st =
           (Inr (), st1\<lparr>logs := logs st1 @ [failureEntry subject data error]\<rparr>) \<and>
         consume subject (messageCallback subject handler) (Payload data # rest) st =
           consume subject (messageCallback subject handler) rest
             (st1\<lparr>logs := logs st1 @ [failureEntry subject data error]\<rparr>) \<and>
         (b \<noteq> JNull \<and> b \<noteq> JUndef \<and>
          handler b (getProp b ''correlationId'')
            (afterReceipt subject b (st1\<lparr>logs := logs st1 @ [failureEntry subject data error]\<rparr>)) =
            (Inr (), st2) \<longrightarrow>
          consume subject (messageCallback subject handler) [Payload data, Payload b] st = st2)"
proof -
  have a: "messageCallback subject handler data st =
           (Inr (), st1\<lparr>logs := logs st1 @ [failureEntry subject data error]\<rparr>)"
    using assms
    by (simp add: messageCallback_def afterReceipt_def failureEntry_def logError_def writeLog_def)
  have c: "consume subject (messageCallback subject handler) (Payload data # rest) st =
           consume subject (messageCallback subject handler) rest
             (st1\<lparr>logs := logs st1 @ [failureEntry subject data error]\<rparr>)" for rest
    by (simp add: onMessage_def a)
  have d: "consume subject (messageCallback subject handler) [Payload data, Payload b] st = st2"
    if "b \<noteq> JNull" "b \<noteq> JUndef"
      "handler b (getProp b ''correlationId'')
            (afterReceipt subject b (st1\<lparr>logs := logs st1 @ [failureEntry subject data error]\<rparr>)) =
            (Inr (), st2)"
    using that unfolding c
    by (simp add: onMessage_def messageCallback_def afterReceipt_def)
  show ?thesis using a c d by blast
qed

text \<open>C2, witness: the handler throws on message A; the log has the receipt of A, the
  error line with subject and payload, and the receipt of B; and B is stored.\<close>

theorem handler_failure_is_contained_witness:
  "messageA \<noteq> JNull \<and> messageA \<noteq> JUndef \<and>
   throwingHandler messageA (getProp messageA ''correlationId'')
      (afterReceipt ''events.facebook.top'' messageA collector0) =
     (Inl (Error ''Handler processing failed''),
      afterReceipt ''events.facebook.top'' messageA collector0) \<and>
   logs (consume ''events.facebook.top''
           (messageCallback ''events.facebook.top'' throwingHandler)
           [Payload messageA, Payload messageB] collector0) =
     [Log ''info'' ''Received event from stream''
        [(''subject'', LJson (JStr ''events.facebook.top'')),
         (''correlationId'', LJson (JStr ''corr-A'')),
         (''eventId'', LJson (JStr ''event-A''))],
      failureEntry ''events.facebook.top'' messageA (Error ''Handler processing failed''),
      Log ''info'' ''Received event from stream''
        [(''subject'', LJson (JStr ''events.facebook.top'')),
         (''correlationId'', LJson (JStr ''corr-B'')),
         (''eventId'', LJson (JStr ''event-B''))]] \<and>
   db (consume ''events.facebook.top''
           (messageCallback ''events.facebook.top'' throwingHandler)
           [Payload messageA, Payload messageB] collector0) = [messageB]"
proof -
  let ?s = "''events.facebook.top''"
  let ?st1 = "afterReceipt ?s messageA collector0"
  let ?st1' = "?st1\<lparr>logs := logs ?st1 @ [failureEntry ?s messageA (Error ''Handler processing failed'')]\<rparr>"
  let ?st2 = "(afterReceipt ?s messageB ?st1')\<lparr>db := db (afterReceipt ?s messageB ?st1') @ [messageB]\<rparr>"
  have n: "messageA \<noteq> JNull" "messageA \<noteq> JUndef" "messageB \<noteq> JNull" "messageB \<noteq> JUndef"
    by (simp_all add: messageA_def messageB_def)
  have h: "throwingHandler messageA (getProp messageA ''correlationId'') ?st1 =
     (Inl (Error ''Handler processing failed''), ?st1)"
    by (simp add: throwingHandler_def messageA_def lookup_def)
  have hb: "throwingHandler messageB (getProp messageB ''correlationId'')
      (afterReceipt ?s messageB ?st1') = (Inr (), ?st2)"
    by (simp add: throwingHandler_def messageB_def lookup_def)
  from handler_failure_is_contained [where handler = throwingHandler and data = messageA
      and subject = ?s and st = collector0 and error = "Error ''Handler processing failed''"
      and ?st1.0 = ?st1 and b = messageB and ?st2.0 = ?st2, OF n(1) n(2) h] n hb
  have r: "consume ?s (messageCallback ?s throwingHandler) [Payload messageA, Payload messageB] collector0 = ?st2"
    by blast
  have l: "logs ?st2 =
     [Log ''info'' ''Received event from stream''
        [(''subject'', LJson (JStr ''events.facebook.top'')),
         (''correlationId'', LJson (JStr ''corr-A'')),
         (''eventId'', LJson (JStr ''event-A''))],
      failureEntry ''events.facebook.top'' messageA (Error ''Handler processing failed''),
      Log ''info'' ''Received event from stream''
        [(''subject'', LJson (JStr ''events.facebook.top'')),
         (''correlationId'', LJson (JStr ''corr-B'')),
         (''eventId'', LJson (JStr ''event-B''))]]"
    by (simp add: afterReceipt_def writeLog_def collector0_def messageA_def messageB_def lookup_def)
  have d: "db ?st2 = [messageB]"
    by (simp add: afterReceipt_def writeLog_def collector0_def)
  show ?thesis using n h r l d by simp
qed

text \<open>The collector's own handler, when the sink fails for a message: the failure is
  counted with the error message and the loop has taken the message; when the sink stores
  it: the message is counted as processed.  On the two sample messages, with a sink that
  fails for A: the failure is counted for A, and B is processed, counted and stored.\<close>

lemma onMessage_sink_fails:
  assumes "data \<noteq> JNull" and "data \<noteq> JUndef"
    and "saveEvent data (getProp data ''correlationId'') (db st) = (Inl e, d)"
  shows "eventsFailed (onMessage subject
            (messageCallback subject (handleEvent platform saveEvent ctype)) (Payload data) st) =
           eventsFailed st @
             [([(''collector_type'', JStr ctype), (''source'', getProp data ''source''),
                (''event_type'', getProp data ''eventType''), (''error'', JStr (message e))], 1)] \<and>
         eventsProcessed (onMessage subject
            (messageCallback subject (handleEvent platform saveEvent ctype)) (Payload data) st) =
           eventsProcessed st \<and>
         db (onMessage subject
            (messageCallback subject (handleEvent platform saveEvent ctype)) (Payload data) st) = d"
  using assms
  by (simp add: onMessage_def messageCallback_def handleEvent_def collectEvent_def Date_now_def
      recordMetric_def writeLog_def logError_def Let_def)

lemma onMessage_sink_stores:
  assumes "data \<noteq> JNull" and "data \<noteq> JUndef"
    and "saveEvent data (getProp data ''correlationId'') (db st) = (Inr (), d)"
  shows "eventsProcessed (onMessage subject
            (messageCallback subject (handleEvent platform saveEvent ctype)) (Payload data) st) =
           eventsProcessed st @
             [((''collector_type'', JStr ctype) # stageLabels data, 1)] \<and>
         eventsFailed (onMessage subject
            (messageCallback subject (handleEvent platform saveEvent ctype)) (Payload data) st) =
           eventsFailed st \<and>
         db (onMessage subject
            (messageCallback subject (handleEvent platform saveEvent ctype)) (Payload data) st) = d"
  using assms
  by (simp add: onMessage_def messageCallback_def handleEvent_def collectEvent_def Date_now_def
      recordMetric_def recordProcessingDuration_def writeLog_def logError_def Let_def)

lemma collector_continues:
  "eventsFailed (consume ''events.facebook.top''
      (messageCallback ''events.facebook.top'' (handleFacebookEvent failingSink ''facebook''))
      [Payload messageA, Payload messageB] collector0) =
     [([(''collector_type'', JStr ''facebook''), (''source'', JStr ''facebook''),
        (''event_type'', JStr ''ad.view''), (''error'', JStr ''Database write failed'')], 1)] \<and>
   eventsProcessed (consume ''events.facebook.top''
      (messageCallback ''events.facebook.top'' (handleFacebookEvent failingSink ''facebook''))
      [Payload messageA, Payload messageB] collector0) =
     [([(''collector_type'', JStr ''facebook''), (''source'', JStr ''facebook''),
        (''event_type'', JStr ''ad.view''), (''funnel_stage'', JStr ''top'')], 1)] \<and>
   db (consume ''events.facebook.top''
      (messageCallback ''events.facebook.top'' (handleFacebookEvent failingSink ''facebook''))
      [Payload messageA, Payload messageB] collector0) = [messageB]"
proof -
  let ?cb = "messageCallback ''events.facebook.top'' (handleEvent ''Facebook'' failingSink ''facebook'')"
  let ?st1 = "onMessage ''events.facebook.top'' ?cb (Payload messageA) collector0"
  have n: "messageA \<noteq> JNull" "messageA \<noteq> JUndef" "messageB \<noteq> JNull" "messageB \<noteq> JUndef"
    by (simp_all add: messageA_def messageB_def)
  have e: "eventsFailed collector0 = []" "eventsProcessed collector0 = []" "db collector0 = []"
    by (simp_all add: collector0_def)
  have a: "failingSink messageA (getProp messageA ''correlationId'') (db collector0) =
      (Inl (Error ''Database write failed''), [])"
    by (simp add: failingSink_def messageA_def lookup_def e)
  note A = onMessage_sink_fails [where saveEvent = failingSink and data = messageA
      and st = collector0 and subject = "''events.facebook.top''" and platform = "''Facebook''"
      and ctype = "''facebook''", OF n(1) n(2) a]
  have b: "failingSink messageB (getProp messageB ''correlationId'') (db ?st1) = (Inr (), [messageB])"
    using A by (simp add: failingSink_def messageB_def lookup_def)
  note B = onMessage_sink_stores [where saveEvent = failingSink and data = messageB
      and st = ?st1 and subject = "''events.facebook.top''" and platform = "''Facebook''"
      and ctype = "''facebook''", OF n(3) n(4) b]
  have l: "getProp messageA ''source'' = JStr ''facebook''" "getProp messageA ''eventType'' = JStr ''ad.view''"
    "stageLabels messageB = [(''source'', JStr ''facebook''),
        (''event_type'', JStr ''ad.view''), (''funnel_stage'', JStr ''top'')]"
    by (simp_all add: messageA_def messageB_def stageLabels_def lookup_def)
  show ?thesis
    using A B unfolding l e by (simp add: handleFacebookEvent_def)
qed

section \<open>Collector startup\<close>

text \<open>Declaring the streams never fails and registers nothing; a subscription on an
  established connection registers the subject with its queue group.\<close>

lemma initializeStreams_keeps:
  "fst (initializeStreams subjects st) = Inr () \<and>
   subscriptions (snd (initializeStreams subjects st)) = subscriptions st \<and>
   connection (snd (initializeStreams subjects st)) = connection st"
  by (simp add: initializeStreams_def ensureStream_def createStream_def getJetStream_def
      writeLog_def logError_def Let_def split: jet_stream.splits)

lemma subscribe_established:
  assumes "connection st = Established"
  shows "fst (subscribe subject durableName h st) = Inr () \<and>
     subscriptions (snd (subscribe subject durableName h st)) =
       subscriptions st @ [(subject, durableName, h)] \<and>
     connection (snd (subscribe subject durableName h st)) = Established"
  using assms
  by (simp add: subscribe_def natsSubscribe_def getConnection_def writeLog_def Let_def)

text \<open>
  C10.  On an established broker connection, a collector of type \<open>facebook\<close> starts and
  registers exactly \<open>events.facebook.top\<close> under \<open>facebook-collector-top\<close> and
  \<open>events.facebook.bottom\<close> under \<open>facebook-collector-bottom\<close>, and a collector of type
  \<open>tiktok\<close> the two TikTok subjects under the TikTok groups.  For any other type the
  start succeeds, whatever the state of the connection and of the stream manager,
  registers nothing, and logs the warning \<open>Unknown collector type\<close>; an unset or empty
  \<open>COLLECTOR_TYPE\<close> is the type \<open>unknown\<close>.
\<close>

theorem collector_startup:
  "(connection st = Established \<longrightarrow>
      fst (onModuleInit (Some ''facebook'') st) = Inr () \<and>
      subscriptions (snd (onModuleInit (Some ''facebook'') st)) =
        subscriptions st @
          [(''events.facebook.top'', ''facebook-collector-top'', HandleFacebookEvent),
           (''events.facebook.bottom'', ''facebook-collector-bottom'', HandleFacebookEvent)]) \<and>
   (connection st = Established \<longrightarrow>
      fst (onModuleInit (Some ''tiktok'') st) = Inr () \<and>
      subscriptions (snd (onModuleInit (Some ''tiktok'') st)) =
        subscriptions st @
          [(''events.tiktok.top'', ''tiktok-collector-top'', HandleTiktokEvent),
           (''events.tiktok.bottom'', ''tiktok-collector-bottom'', HandleTiktokEvent)]) \<and>
   (collectorTypeOf env \<noteq> ''facebook'' \<and> collectorTypeOf env \<noteq> ''tiktok'' \<longrightarrow>
      fst (onModuleInit env st) = Inr () \<and>
      subscriptions (snd (onModuleInit env st)) = subscriptions st \<and>
      Log ''warn'' (''Unknown collector type: '' @ collectorTypeOf env) []
        \<in> set (logs (snd (onModuleInit env st)))) \<and>
   collectorTypeOf None = ''unknown'' \<and> collectorTypeOf (Some []) = ''unknown''"
proof (intro conjI impI)
  assume c: "connection st = Established"
  obtain st1 where i: "initializeStreams
             [''events.facebook.top'', ''events.facebook.bottom'',
              ''events.tiktok.top'', ''events.tiktok.bottom''] st = (Inr (), st1)"
    and s1: "subscriptions st1 = subscriptions st" and c1: "connection st1 = Established"
    using initializeStreams_keeps [of _ st] c by (metis prod.collapse)
  obtain st2 where a: "subscribe ''events.facebook.top'' ''facebook-collector-top'' HandleFacebookEvent st1 = (Inr (), st2)"
    and s2: "subscriptions st2 = subscriptions st1 @ [(''events.facebook.top'', ''facebook-collector-top'', HandleFacebookEvent)]"
    and c2: "connection st2 = Established"
    using subscribe_established [OF c1] by (metis prod.collapse)
  obtain st3 where b: "subscribe ''events.facebook.bottom'' ''facebook-collector-bottom'' HandleFacebookEvent st2 = (Inr (), st3)"
    and s3: "subscriptions st3 = subscriptions st2 @ [(''events.facebook.bottom'', ''facebook-collector-bottom'', HandleFacebookEvent)]"
    using subscribe_established [OF c2] by (metis prod.collapse)
  have f: "onModuleInit (Some ''facebook'') st =
      (Inr (), writeLog ''info'' ''Collector service initialized for facebook'' []
                 (writeLog ''info'' ''Subscribed to Facebook events'' [] st3))"
    by (simp add: onModuleInit_def collectorTypeOf_def i subscribeToFacebookEvents_def a b)
  show "fst (onModuleInit (Some ''facebook'') st) = Inr ()"
    by (simp add: f)
  show "subscriptions (snd (onModuleInit (Some ''facebook'') st)) =
        subscriptions st @
          [(''events.facebook.top'', ''facebook-collector-top'', HandleFacebookEvent),
           (''events.facebook.bottom'', ''facebook-collector-bottom'', HandleFacebookEvent)]"
    by (simp add: f writeLog_def s3 s2 s1)
next
  assume c: "connection st = Established"
  obtain st1 where i: "initializeStreams
             [''events.facebook.top'', ''events.facebook.bottom'',
              ''events.tiktok.top'', ''events.tiktok.bottom''] st = (Inr (), st1)"
    and s1: "subscriptions st1 = subscriptions st" and c1: "connection st1 = Established"
    using initializeStreams_keeps [of _ st] c by (metis prod.collapse)
  obtain st2 where a: "subscribe ''events.tiktok.top'' ''tiktok-collector-top'' HandleTiktokEvent st1 = (Inr (), st2)"
    and s2: "subscriptions st2 = subscriptions st1 @ [(''events.tiktok.top'', ''tiktok-collector-top'', HandleTiktokEvent)]"
    and c2: "connection st2 = Established"
    using subscribe_established [OF c1] by (metis prod.collapse)
  obtain st3 where b: "subscribe ''events.tiktok.bottom'' ''tiktok-collector-bottom'' HandleTiktokEvent st2 = (Inr (), st3)"
    and s3: "subscriptions st3 = subscriptions st2 @ [(''events.tiktok.bottom'', ''tiktok-collector-bottom'', HandleTiktokEvent)]"
    using subscribe_established [OF c2] by (metis prod.collapse)
  have f: "onModuleInit (Some ''tiktok'') st =
      (Inr (), writeLog ''info'' ''Collector service initialized for tiktok'' []
                 (writeLog ''info'' ''Subscribed to TikTok events'' [] st3))"
    by (simp add: onModuleInit_def collectorTypeOf_def i subscribeToTiktokEvents_def a b)
  show "fst (onModuleInit (Some ''tiktok'') st) = Inr ()"
    by (simp add: f)
  show "subscriptions (snd (onModuleInit (Some ''tiktok'') st)) =
        subscriptions st @
          [(''events.tiktok.top'', ''tiktok-collector-top'', HandleTiktokEvent),
           (''events.tiktok.bottom'', ''tiktok-collector-bottom'', HandleTiktokEvent)]"
    by (simp add: f writeLog_def s3 s2 s1)
next
  assume u: "collectorTypeOf env \<noteq> ''facebook'' \<and> collectorTypeOf env \<noteq> ''tiktok''"
  obtain st1 where i: "initializeStreams
             [''events.facebook.top'', ''events.facebook.bottom'',
              ''events.tiktok.top'', ''events.tiktok.bottom''] st = (Inr (), st1)"
    and s1: "subscriptions st1 = subscriptions st"
    using initializeStreams_keeps [of _ st] by (metis prod.collapse)
  have f: "onModuleInit env st =
      (Inr (), writeLog ''info'' (''Collector service initialized for '' @ collectorTypeOf env) []
                 (writeLog ''warn'' (''Unknown collector type: '' @ collectorTypeOf env) [] st1))"
    using u by (simp add: onModuleInit_def i Let_def)
  show "fst (onModuleInit env st) = Inr ()"
    by (simp add: f)
  show "subscriptions (snd (onModuleInit env st)) = subscriptions st"
    by (simp add: f writeLog_def s1)
  show "Log ''warn'' (''Unknown collector type: '' @ collectorTypeOf env) []
        \<in> set (logs (snd (onModuleInit env st)))"
    by (simp add: f writeLog_def)
next
  show "collectorTypeOf None = ''unknown''" "collectorTypeOf (Some []) = ''unknown''"
    by (simp_all add: collectorTypeOf_def)
qed

text \<open>C10, witness: the sample collector started as \<open>facebook\<close>, as \<open>tiktok\<close>, as
  \<open>Facebook\<close> (the comparison is case-sensitive) and with the type unset.\<close>

theorem collector_startup_witness:
  "connection collector0 = Established \<and>
   fst (onModuleInit (Some ''facebook'') collector0) = Inr () \<and>
   subscriptions (snd (onModuleInit (Some ''facebook'') collector0)) =
     [(''events.facebook.top'', ''facebook-collector-top'', HandleFacebookEvent),
      (''events.facebook.bottom'', ''facebook-collector-bottom'', HandleFacebookEvent)] \<and>
   subscriptions (snd (onModuleInit (Some ''tiktok'') collector0)) =
     [(''events.tiktok.top'', ''tiktok-collector-top'', HandleTiktokEvent),
      (''events.tiktok.bottom'', ''tiktok-collector-bottom'', HandleTiktokEvent)] \<and>
   collectorTypeOf (Some ''Facebook'') = ''Facebook'' \<and>
   fst (onModuleInit (Some ''Facebook'') collector0) = Inr () \<and>
   subscriptions (snd (onModuleInit (Some ''Facebook'') collector0)) = [] \<and>
   Log ''warn'' ''Unknown collector type: Facebook'' []
     \<in> set (logs (snd (onModuleInit (Some ''Facebook'') collector0))) \<and>
   fst (onModuleInit None collector0) = Inr () \<and>
   subscriptions (snd (onModuleInit None collector0)) = [] \<and>
   Log ''warn'' ''Unknown collector type: unknown'' []
     \<in> set (logs (snd (onModuleInit None collector0)))"
proof -
  have c: "connection collector0 = Established" and s: "subscriptions collector0 = []"
    by (simp_all add: collector0_def)
  have t: "collectorTypeOf (Some ''Facebook'') = ''Facebook''" "collectorTypeOf None = ''unknown''"
    by (simp_all add: collectorTypeOf_def)
  show ?thesis
    using collector_startup [of collector0 "Some ''Facebook''"]
      collector_startup [of collector0 None] c
    unfolding t s by simp
qed

text \<open>Without a connection the first subscription fails and so does the start of a
  \<open>facebook\<close> collector, with nothing registered.\<close>

lemma startup_without_connection:
  assumes "connection st = NoConnection"
  shows "fst (onModuleInit (Some ''facebook'') st) =
           Inl (Error ''NATS connection not established'') \<and>
         subscriptions (snd (onModuleInit (Some ''facebook'') st)) = subscriptions st"
proof -
  obtain st1 where i: "initializeStreams
             [''events.facebook.top'', ''events.facebook.bottom'',
              ''events.tiktok.top'', ''events.tiktok.bottom''] st = (Inr (), st1)"
    and s1: "subscriptions st1 = subscriptions st" and c1: "connection st1 = NoConnection"
    using initializeStreams_keeps [of _ st] assms by (metis prod.collapse)
  show ?thesis
    using c1 s1
    by (simp add: onModuleInit_def collectorTypeOf_def i subscribeToFacebookEvents_def
        subscribe_def natsSubscribe_def getConnection_def writeLog_def logError_def Let_def)
qed

end
